theory Spec2Isabelle
  imports Main "HOL-Library.Word"
begin

section \<open>JavaScript values\<close>

text \<open>
  A JavaScript string is a sequence of UTF-16 code units; \<open>length\<close> counts code units.
  The literals of the server are ASCII, so \<open>js\<close> turns a literal into its code units.
\<close>

type_synonym js_string = "16 word list"

definition js :: "string \<Rightarrow> js_string" where
  "js s = map (\<lambda>c. of_nat (of_char c)) s"

text \<open>
  \<open>String.prototype.trim\<close> removes WhiteSpace and LineTerminator code units from both
  ends: TAB, LF, VT, FF, CR, SP, NBSP, U+1680, U+2000 to U+200A, LS, PS, U+202F, U+205F,
  U+3000 and U+FEFF.
\<close>

definition is_js_whitespace :: "16 word \<Rightarrow> bool" where
  "is_js_whitespace c \<longleftrightarrow>
     c = 0x0009 \<or> c = 0x000A \<or> c = 0x000B \<or> c = 0x000C \<or> c = 0x000D \<or> c = 0x0020 \<or>
     c = 0x00A0 \<or> c = 0x1680 \<or> (0x2000 \<le> c \<and> c \<le> 0x200A) \<or> c = 0x2028 \<or>
     c = 0x2029 \<or> c = 0x202F \<or> c = 0x205F \<or> c = 0x3000 \<or> c = 0xFEFF"

definition trim :: "js_string \<Rightarrow> js_string" where
  "trim s = rev (dropWhile is_js_whitespace (rev (dropWhile is_js_whitespace s)))"

text \<open>
  better-sqlite3 binds a string as UTF-8 text and reads it back from UTF-8. A surrogate
  code unit that is not part of a pair (a high one, U+D800 to U+DBFF, followed by a low
  one, U+DC00 to U+DFFF) has no UTF-8 form and is written as U+FFFD; every other code
  unit comes back as it was.
\<close>

definition is_high_surrogate :: "16 word \<Rightarrow> bool" where
  "is_high_surrogate c \<longleftrightarrow> 0xD800 \<le> c \<and> c \<le> 0xDBFF"

definition is_low_surrogate :: "16 word \<Rightarrow> bool" where
  "is_low_surrogate c \<longleftrightarrow> 0xDC00 \<le> c \<and> c \<le> 0xDFFF"

fun utf8_round_trip :: "js_string \<Rightarrow> js_string" where
  "utf8_round_trip [] = []"
| "utf8_round_trip [c] =
     [if is_high_surrogate c \<or> is_low_surrogate c then 0xFFFD else c]"
| "utf8_round_trip (c # d # rest) =
     (if is_high_surrogate c \<and> is_low_surrogate d then c # d # utf8_round_trip rest
      else if is_high_surrogate c \<or> is_low_surrogate c
      then 0xFFFD # utf8_round_trip (d # rest)
      else c # utf8_round_trip (d # rest))"

text \<open>
  The values \<open>express.json()\<close> can put into a field of \<open>req.body\<close>, and the values
  \<open>res.json\<close> sends. A field that is absent reads as \<open>undefined\<close>, modelled as \<open>None\<close>
  of \<open>json option\<close>. \<open>JTimestamp\<close> stands for the text of a \<open>created_at\<close> column.
\<close>

type_synonym timestamp = nat

datatype json =
    JNull
  | JBool bool
  | JNumber int
  | JString js_string
  | JTimestamp timestamp
  | JArray "json list"
  | JObject "(string \<times> json) list"

text \<open>\<open>!v\<close> for a value read from the request body.\<close>

fun falsy :: "json option \<Rightarrow> bool" where
  "falsy None = True"
| "falsy (Some JNull) = True"
| "falsy (Some (JBool b)) = (\<not> b)"
| "falsy (Some (JNumber n)) = (n = 0)"
| "falsy (Some (JString s)) = (s = [])"
| "falsy (Some _) = False"

text \<open>\<open>typeof v === 'string'\<close>.\<close>

fun is_string :: "json option \<Rightarrow> bool" where
  "is_string (Some (JString s)) = True"
| "is_string _ = False"

fun string_of :: "json option \<Rightarrow> js_string" where
  "string_of (Some (JString s)) = s"
| "string_of _ = []"

section \<open>The database\<close>

text \<open>
  The two tables of the schema (\<open>db.exec\<close> at start-up). \<open>created_at\<close> defaults to
  \<open>CURRENT_TIMESTAMP\<close>, the text \<open>YYYY-MM-DD HH:MM:SS\<close>, whose order as text is the
  order of time at a resolution of one second: a \<open>timestamp\<close> is that number of seconds.
  A table is the list of its rows in the order of insertion (the order of rowids).
\<close>

datatype sender = User | Ai

record ConversationRow =
  conv_id :: js_string
  conv_created_at :: timestamp

record MessageRow =
  msg_id :: js_string
  conversation_id :: js_string
  sender :: sender
  msg_text :: js_string
  created_at :: timestamp

record database =
  conversations :: "ConversationRow list"
  messages :: "MessageRow list"

text \<open>What a handler can catch: a failed statement, a failed provider call, a plain Error.\<close>

datatype exn =
    SqliteError string
  | APIError "nat option"
  | Error string

text \<open>\<open>error?.status\<close>\<close>

fun status_of :: "exn \<Rightarrow> nat option" where
  "status_of (APIError s) = s"
| "status_of _ = None"

text \<open>\<open>SELECT ... FROM conversations WHERE id = ?\<close> with \<open>.get\<close>: the first row or undefined.\<close>

definition select_conversation :: "database \<Rightarrow> js_string \<Rightarrow> ConversationRow option" where
  "select_conversation db cid = find (\<lambda>r. conv_id r = cid) (conversations db)"

text \<open>\<open>INSERT INTO conversations (id) VALUES (?)\<close>: \<open>id\<close> is the primary key.\<close>

definition insert_conversation ::
  "database \<Rightarrow> js_string \<Rightarrow> timestamp \<Rightarrow> exn + database" where
  "insert_conversation db cid now =
     (if cid \<in> set (map conv_id (conversations db))
      then Inl (SqliteError ''SQLITE_CONSTRAINT_PRIMARYKEY'')
      else Inr (db\<lparr>conversations :=
                  conversations db @ [\<lparr>conv_id = cid, conv_created_at = now\<rparr>]\<rparr>))"

text \<open>
  \<open>INSERT INTO messages (id, conversation_id, sender, text) VALUES (?, ?, ?, ?)\<close>:
  \<open>id\<close> is the primary key and \<open>conversation_id\<close> references \<open>conversations(id)\<close>
  (better-sqlite3 builds SQLite with foreign keys enforced). The row holds the text as
  it reads back from its UTF-8 form.
\<close>

definition insert_message ::
  "database \<Rightarrow> js_string \<Rightarrow> js_string \<Rightarrow> sender \<Rightarrow> js_string \<Rightarrow> timestamp \<Rightarrow> exn + database" where
  "insert_message db mid cid s t now =
     (if mid \<in> set (map msg_id (messages db))
      then Inl (SqliteError ''SQLITE_CONSTRAINT_PRIMARYKEY'')
      else if cid \<notin> set (map conv_id (conversations db))
      then Inl (SqliteError ''SQLITE_CONSTRAINT_FOREIGNKEY'')
      else Inr (db\<lparr>messages := messages db @
                  [\<lparr>msg_id = mid, conversation_id = cid, sender = s,
                    msg_text = utf8_round_trip t,
                    created_at = now\<rparr>]\<rparr>))"

text \<open>
  \<open>SELECT ... FROM messages WHERE conversation_id = ? ORDER BY created_at ASC\<close>. The
  index on \<open>(conversation_id, created_at)\<close> serves the query; rows of one timestamp come
  in the order of their rowids.
\<close>

definition select_messages_asc :: "database \<Rightarrow> js_string \<Rightarrow> MessageRow list" where
  "select_messages_asc db cid =
     sort_key created_at (filter (\<lambda>m. conversation_id m = cid) (messages db))"

text \<open>
  \<open>... ORDER BY created_at DESC LIMIT 6\<close>: the same index read backwards, six rows at
  most.
\<close>

definition select_messages_desc_limit6 :: "database \<Rightarrow> js_string \<Rightarrow> MessageRow list" where
  "select_messages_desc_limit6 db cid = take 6 (rev (select_messages_asc db cid))"

text \<open>
  \<open>DELETE FROM conversations WHERE id = ?\<close>; the foreign key of \<open>messages\<close> is declared
  \<open>ON DELETE CASCADE\<close>.
\<close>

definition delete_conversation :: "database \<Rightarrow> js_string \<Rightarrow> database" where
  "delete_conversation db cid =
     db\<lparr>conversations := filter (\<lambda>r. conv_id r \<noteq> cid) (conversations db),
        messages := filter (\<lambda>m. conversation_id m \<noteq> cid) (messages db)\<rparr>"

text \<open>\<open>SELECT COUNT(*) as cnt FROM messages WHERE conversation_id = ?\<close>\<close>

definition count_messages :: "database \<Rightarrow> js_string \<Rightarrow> nat" where
  "count_messages db cid = length (filter (\<lambda>m. conversation_id m = cid) (messages db))"

section \<open>Responses\<close>

record response =
  status :: nat
  headers :: "(string \<times> js_string) list"
  body :: json

text \<open>\<open>res.status(code).json(obj)\<close>; \<open>res.json(obj)\<close> is \<open>res_json 200 obj\<close>.\<close>

definition res_json :: "nat \<Rightarrow> json \<Rightarrow> response" where
  "res_json code obj = \<lparr>status = code, headers = [], body = obj\<rparr>"

text \<open>The field of a response's body, when the body is an object.\<close>

fun field :: "json \<Rightarrow> string \<Rightarrow> json option" where
  "field (JObject kvs) k = map_of kvs k"
| "field _ k = None"

text \<open>A row of \<open>SELECT id, sender, text, created_at\<close> as the object sent.\<close>

fun sender_text :: "sender \<Rightarrow> js_string" where
  "sender_text User = js ''user''"
| "sender_text Ai = js ''ai''"

definition row_json :: "MessageRow \<Rightarrow> json" where
  "row_json m = JObject
     [(''id'', JString (msg_id m)),
      (''sender'', JString (sender_text (sender m))),
      (''text'', JString (msg_text m)),
      (''created_at'', JTimestamp (created_at m))]"

section \<open>The completion provider\<close>

datatype role = RoleSystem | RoleUser | RoleAssistant

record turn =
  role :: role
  content :: js_string

text \<open>
  What \<open>groq.chat.completions.create\<close> resolves to, as far as the handler reads it:
  \<open>choices[0]?.message?.content\<close>, where every link may be missing.
\<close>

datatype completion_message = CompletionMessage "js_string option"
datatype choice = Choice "completion_message option"
datatype chat_completion = ChatCompletion "choice list"

datatype completion_result = Resolved chat_completion | Rejected exn

fun first_content :: "chat_completion \<Rightarrow> js_string option" where
  "first_content (ChatCompletion []) = None"
| "first_content (ChatCompletion (Choice None # _)) = None"
| "first_content (ChatCompletion (Choice (Some (CompletionMessage c)) # _)) = c"

text \<open>\<open>v || d\<close> for a string \<open>v\<close> that may be undefined, null or empty.\<close>

fun or_default :: "js_string option \<Rightarrow> js_string \<Rightarrow> js_string" where
  "or_default None d = d"
| "or_default (Some s) d = (if s = [] then d else s)"

section \<open>What a request finds outside the program\<close>

text \<open>
  The values one request of \<open>POST /api/message\<close> reads from outside: what \<open>uuidv4()\<close>
  returns at each of its three places, \<open>CURRENT_TIMESTAMP\<close> at each of the three
  inserts, what the provider answers for a model and a turn sequence (the generation
  parameters are constants), and \<open>new Date().toISOString()\<close>.
\<close>

record env =
  uuid_conversation :: js_string
  uuid_userMsg :: js_string
  uuid_aiMsg :: js_string
  now_conversation :: timestamp
  now_userMsg :: timestamp
  now_aiMsg :: timestamp
  create :: "string \<Rightarrow> turn list \<Rightarrow> completion_result"
  toISOString :: js_string

text \<open>
  The body of the request: \<open>message\<close> is whatever JSON value was posted (the handler
  tests its type); \<open>conversationId\<close> is a string or absent, as the client sends it.
\<close>

record request_body =
  message :: "json option"
  conversationId :: "js_string option"

section \<open>POST /api/message\<close>

definition STORE_INFO :: js_string where
  \<open>STORE_INFO = js (
     ''You are "Alex", a friendly and helpful customer support agent for QuickShop e-commerce store.'' @ [CHR 0x0A] @
     [CHR 0x0A] @
     ''IMPORTANT GUIDELINES:'' @ [CHR 0x0A] @
     ''1. Be conversational and natural - don't sound like a robot'' @ [CHR 0x0A] @
     ''2. Greet customers warmly when they say hello'' @ [CHR 0x0A] @
     ''3. Only share store information when asked'' @ [CHR 0x0A] @
     ''4. Keep responses concise but helpful'' @ [CHR 0x0A] @
     [CHR 0x0A] @
     ''STORE INFORMATION (share when relevant):'' @ [CHR 0x0A] @
     ''- **Returns**: 30-day return policy. Items must be unused with original tags.'' @ [CHR 0x0A] @
     ''- **Shipping**: Free shipping on orders over $50. Standard: 5-7 business days.'' @ [CHR 0x0A] @
     ''- **Support Hours**: Monday-Friday, 9:00 AM - 6:00 PM EST'' @ [CHR 0x0A] @
     ''- **Contact**: support@quickshop.com or call 1-800-QUICK-SHOP'' @ [CHR 0x0A] @
     ''- **Payment**: We accept Visa, Mastercard, Amex, PayPal, Apple Pay'' @ [CHR 0x0A] @
     [CHR 0x0A] @
     ''Be helpful, friendly, and professional.'')\<close>

definition modelsToTry :: "string list" where
  "modelsToTry =
     [''llama-3.1-8b-instant'', ''llama-3.2-3b-preview'', ''gemma2-9b-it'',
      ''llama-3.2-1b-preview'']"

definition apology :: js_string where
  \<open>apology = js ''I apologize, but I couldn't generate a response.''\<close>

text \<open>
  Get or create the conversation: a missing or empty id, or one the table does not hold,
  is replaced by a new id, inserted. The result is \<open>(convId, isNewConversation)\<close> and the
  database, or what the insert threw.
\<close>

definition resolve_conversation ::
  "env \<Rightarrow> database \<Rightarrow> js_string option \<Rightarrow> exn + (js_string \<times> bool \<times> database)" where
  "resolve_conversation e db supplied =
     (case supplied of
        None \<Rightarrow>
          (case insert_conversation db (uuid_conversation e) (now_conversation e) of
             Inl x \<Rightarrow> Inl x
           | Inr db1 \<Rightarrow> Inr (uuid_conversation e, True, db1))
      | Some convId \<Rightarrow>
          if convId = [] then
            (case insert_conversation db (uuid_conversation e) (now_conversation e) of
               Inl x \<Rightarrow> Inl x
             | Inr db1 \<Rightarrow> Inr (uuid_conversation e, True, db1))
          else
            (case select_conversation db convId of
               None \<Rightarrow>
                 (case insert_conversation db (uuid_conversation e) (now_conversation e) of
                    Inl x \<Rightarrow> Inl x
                  | Inr db1 \<Rightarrow> Inr (uuid_conversation e, True, db1))
             | Some exists \<Rightarrow> Inr (convId, False, db)))"

text \<open>
  The history query, reversed, and the \<open>messages\<close> array built from it: the system turn,
  the history, the current user message.
\<close>

definition history :: "database \<Rightarrow> js_string \<Rightarrow> MessageRow list" where
  "history db convId = rev (select_messages_desc_limit6 db convId)"

definition history_turn :: "MessageRow \<Rightarrow> turn" where
  "history_turn msg =
     \<lparr>role = (if sender msg = User then RoleUser else RoleAssistant), content = msg_text msg\<rparr>"

definition build_messages :: "database \<Rightarrow> js_string \<Rightarrow> js_string \<Rightarrow> turn list" where
  "build_messages db convId userMessage =
     [\<lparr>role = RoleSystem, content = STORE_INFO\<rparr>] @
     map history_turn (history db convId) @
     [\<lparr>role = RoleUser, content = userMessage\<rparr>]"

text \<open>
  The loop over \<open>modelsToTry\<close>. \<open>calls\<close> lists the provider calls made, in order, each
  with the model and the turns it was given.
\<close>

record loop_state =
  aiReply :: js_string
  modelUsed :: string
  lastError :: "exn option"
  calls :: "(string \<times> turn list) list"

fun try_models ::
  "(string \<Rightarrow> turn list \<Rightarrow> completion_result) \<Rightarrow> turn list \<Rightarrow> string list \<Rightarrow>
   loop_state \<Rightarrow> loop_state" where
  "try_models cr msgs [] st = st"
| "try_models cr msgs (model # rest) st =
     (let st1 = st\<lparr>modelUsed := model, calls := calls st @ [(model, msgs)]\<rparr> in
      case cr model msgs of
        Resolved chatCompletion \<Rightarrow>
          st1\<lparr>aiReply := or_default (first_content chatCompletion) apology\<rparr>
      | Rejected error \<Rightarrow> try_models cr msgs rest (st1\<lparr>lastError := Some error\<rparr>))"

text \<open>
  The \<open>try\<close> block: the response sent or the exception thrown, the database as it is
  left, and the provider calls made.
\<close>

definition post_message_try ::
  "env \<Rightarrow> database \<Rightarrow> request_body \<Rightarrow>
   (exn + response) \<times> database \<times> (string \<times> turn list) list" where
  "post_message_try e db req =
     (if falsy (message req) \<or> \<not> is_string (message req) then
        (Inr (res_json 400 (JObject
           [(''error'', JString (js ''Message is required and must be a string''))])), db, [])
      else
        let userMessage = trim (string_of (message req)) in
        if length userMessage = 0 then
          (Inr (res_json 400 (JObject
             [(''error'', JString (js ''Message cannot be empty''))])), db, [])
        else if length userMessage > 1000 then
          (Inr (res_json 400 (JObject
             [(''error'', JString (js ''Message too long (maximum 1000 characters)'')),
              (''length'', JNumber (int (length userMessage)))])), db, [])
        else
          case resolve_conversation e db (conversationId req) of
            Inl x \<Rightarrow> (Inl x, db, [])
          | Inr (convId, isNewConversation, db1) \<Rightarrow>
              (case insert_message db1 (uuid_userMsg e) convId User userMessage (now_userMsg e) of
                 Inl x \<Rightarrow> (Inl x, db1, [])
               | Inr db2 \<Rightarrow>
                   let st = try_models (create e) (build_messages db2 convId userMessage)
                              modelsToTry
                              \<lparr>aiReply = [], modelUsed = [], lastError = None, calls = []\<rparr>
                   in
                   if aiReply st = [] then
                     (Inl (case lastError st of
                             Some x \<Rightarrow> x
                           | None \<Rightarrow> Error ''All models failed''), db2, calls st)
                   else
                     (case insert_message db2 (uuid_aiMsg e) convId Ai (aiReply st) (now_aiMsg e) of
                        Inl x \<Rightarrow> (Inl x, db2, calls st)
                      | Inr db3 \<Rightarrow>
                          (Inr (res_json 200 (JObject
                             [(''success'', JBool True),
                              (''reply'', JString (aiReply st)),
                              (''conversationId'', JString convId),
                              (''modelUsed'', JString (js (modelUsed st))),
                              (''isNewConversation'', JBool isNewConversation),
                              (''timestamp'', JString (toISOString e))])), db3, calls st))))"

text \<open>The \<open>catch\<close> block.\<close>

definition post_message_catch :: "exn \<Rightarrow> response" where
  \<open>post_message_catch error =
     (let (errorMessage, statusCode) =
        (if status_of error = Some 401 then
           (js ''API authentication failed. Please check your Groq API key.'', 401)
         else if status_of error = Some 429 then
           (js ''Too many requests. Please try again in a moment.'', 429)
         else if status_of error = Some 400 then
           (js ''Service updating. Here is sample response: We have a 30-day return policy for items in original condition.'', 500)
         else (js ''Sorry, I encountered an error. Please try again.'', 500))
      in res_json statusCode (JObject
           [(''success'', JBool False),
            (''error'', JString errorMessage),
            (''reply'', JString (js ''I'm having temporary technical issues. Our return policy is 30 days for items in original condition.'')),
            (''fallback'', JBool True)]))\<close>

record outcome =
  response :: response
  db_after :: database
  provider_calls :: "(string \<times> turn list) list"

definition post_message :: "env \<Rightarrow> database \<Rightarrow> request_body \<Rightarrow> outcome" where
  "post_message e db req =
     (case post_message_try e db req of
        (Inr res, db', cs) \<Rightarrow> \<lparr>response = res, db_after = db', provider_calls = cs\<rparr>
      | (Inl error, db', cs) \<Rightarrow>
          \<lparr>response = post_message_catch error, db_after = db', provider_calls = cs\<rparr>)"

section \<open>The conversation endpoints\<close>

text \<open>\<open>GET /api/conversation/:id\<close>\<close>

definition get_conversation :: "database \<Rightarrow> js_string \<Rightarrow> response" where
  "get_conversation db cid =
     (case select_conversation db cid of
        None \<Rightarrow> res_json 404 (JObject [(''error'', JString (js ''Conversation not found''))])
      | Some conversation \<Rightarrow>
          let msgs = select_messages_asc db cid in
          res_json 200 (JObject
            [(''success'', JBool True),
             (''conversationId'', JString cid),
             (''createdAt'', JTimestamp (conv_created_at conversation)),
             (''messageCount'', JNumber (int (length msgs))),
             (''messages'', JArray (map row_json msgs))]))"

text \<open>
  \<open>GET /api/conversation/:id/export\<close>. The body is the text
  \<open>JSON.stringify(payload, null, 2)\<close>, modelled as the value it is the text of;
  \<open>res.type('application/json')\<close> and \<open>res.send\<close> of a string give the content type
  with its charset.
\<close>

definition export_conversation :: "database \<Rightarrow> js_string \<Rightarrow> response" where
  \<open>export_conversation db cid =
     (case select_conversation db cid of
        None \<Rightarrow> res_json 404 (JObject [(''error'', JString (js ''Conversation not found''))])
      | Some conversation \<Rightarrow>
          let msgs = select_messages_asc db cid;
              payload = JObject
                [(''conversationId'', JString cid),
                 (''createdAt'', JTimestamp (conv_created_at conversation)),
                 (''messageCount'', JNumber (int (length msgs))),
                 (''messages'', JArray (map row_json msgs))]
          in \<lparr>status = 200,
              headers =
                [(''Content-Disposition'',
                    js ''attachment; filename="conversation-'' @ cid @ js ''.json"''),
                 (''Content-Type'', js ''application/json; charset=utf-8'')],
              body = payload\<rparr>)\<close>

text \<open>\<open>DELETE /api/conversation/:id\<close>: the response and the database it leaves.\<close>

definition delete_conversation_handler :: "database \<Rightarrow> js_string \<Rightarrow> response \<times> database" where
  "delete_conversation_handler db cid =
     (case select_conversation db cid of
        None \<Rightarrow>
          (res_json 404 (JObject [(''error'', JString (js ''Conversation not found''))]), db)
      | Some existing \<Rightarrow>
          (res_json 200 (JObject [(''success'', JBool True), (''conversationId'', JString cid)]),
           delete_conversation db cid))"

section \<open>Predicates and sample inputs of the statements\<close>

text \<open>
  A message passes the three guards of the handler: it is a non-empty string, not empty
  once trimmed, and at most 1000 code units long once trimmed.
\<close>

definition valid_message :: "json option \<Rightarrow> bool" where
  "valid_message m \<longleftrightarrow>
     \<not> (falsy m \<or> \<not> is_string m) \<and> length (trim (string_of m)) \<noteq> 0 \<and>
     \<not> length (trim (string_of m)) > 1000"

text \<open>\<open>userMessage\<close>, the trimmed message.\<close>

definition user_message :: "request_body \<Rightarrow> js_string" where
  "user_message req = trim (string_of (message req))"

text \<open>The variables of the loop before its first round.\<close>

definition loop_start :: loop_state where
  "loop_start = \<lparr>aiReply = [], modelUsed = [], lastError = None, calls = []\<rparr>"

text \<open>
  What \<open>uuidv4()\<close> is relied on for: the ids it returns during a request are not keys of
  the tables yet, and the two message ids differ.
\<close>

definition fresh_ids :: "env \<Rightarrow> database \<Rightarrow> bool" where
  "fresh_ids e db \<longleftrightarrow>
     uuid_conversation e \<notin> set (map conv_id (conversations db)) \<and>
     uuid_userMsg e \<notin> set (map msg_id (messages db)) \<and>
     uuid_aiMsg e \<notin> set (map msg_id (messages db)) \<and>
     uuid_aiMsg e \<noteq> uuid_userMsg e"

text \<open>
  A database with two conversations, and a provider whose first model is gone, whose
  second answers, and whose others answer without content.
\<close>

definition db_example :: database where
  "db_example =
     \<lparr>conversations = [\<lparr>conv_id = js ''c1'', conv_created_at = 10\<rparr>,
                       \<lparr>conv_id = js ''c2'', conv_created_at = 11\<rparr>],
      messages = [\<lparr>msg_id = js ''m1'', conversation_id = js ''c1'', sender = User,
                    msg_text = js ''hello'', created_at = 10\<rparr>,
                  \<lparr>msg_id = js ''m2'', conversation_id = js ''c1'', sender = Ai,
                    msg_text = js ''hi'', created_at = 10\<rparr>,
                  \<lparr>msg_id = js ''m3'', conversation_id = js ''c2'', sender = User,
                    msg_text = js ''returns?'', created_at = 12\<rparr>]\<rparr>"

definition completion_example :: "js_string option \<Rightarrow> chat_completion" where
  "completion_example c = ChatCompletion [Choice (Some (CompletionMessage c))]"

definition env_example :: env where
  "env_example =
     \<lparr>uuid_conversation = js ''c3'', uuid_userMsg = js ''m4'', uuid_aiMsg = js ''m5'',
      now_conversation = 20, now_userMsg = 20, now_aiMsg = 20,
      create = (\<lambda>model msgs.
         if model = ''llama-3.1-8b-instant'' then Rejected (APIError (Some 404))
         else if model = ''llama-3.2-3b-preview''
         then Resolved (completion_example (Some (js ''Free over $50.'')))
         else Resolved (completion_example None)),
      toISOString = js ''2025-12-01T10:00:20.000Z''\<rparr>"

text \<open>The same provider, whose models past the first resolve with no choice at all.\<close>

definition env_no_content :: env where
  "env_no_content =
     env_example\<lparr>create := (\<lambda>model msgs.
        if model = ''llama-3.1-8b-instant'' then Rejected (APIError (Some 404))
        else Resolved (ChatCompletion []))\<rparr>"

text \<open>A database whose conversation \<open>c1\<close> holds seven messages.\<close>

definition db_long :: database where
  "db_long =
     \<lparr>conversations = [\<lparr>conv_id = js ''c1'', conv_created_at = 1\<rparr>,
                       \<lparr>conv_id = js ''c2'', conv_created_at = 3\<rparr>],
      messages = [\<lparr>msg_id = js ''a1'', conversation_id = js ''c1'', sender = User,
                    msg_text = js ''q1'', created_at = 1\<rparr>,
                  \<lparr>msg_id = js ''a2'', conversation_id = js ''c1'', sender = Ai,
                    msg_text = js ''r1'', created_at = 1\<rparr>,
                  \<lparr>msg_id = js ''a3'', conversation_id = js ''c1'', sender = User,
                    msg_text = js ''q2'', created_at = 2\<rparr>,
                  \<lparr>msg_id = js ''b1'', conversation_id = js ''c2'', sender = User,
                    msg_text = js ''other'', created_at = 3\<rparr>,
                  \<lparr>msg_id = js ''a4'', conversation_id = js ''c1'', sender = Ai,
                    msg_text = js ''r2'', created_at = 3\<rparr>,
                  \<lparr>msg_id = js ''a5'', conversation_id = js ''c1'', sender = User,
                    msg_text = js ''q3'', created_at = 4\<rparr>,
                  \<lparr>msg_id = js ''a6'', conversation_id = js ''c1'', sender = Ai,
                    msg_text = js ''r3'', created_at = 5\<rparr>,
                  \<lparr>msg_id = js ''a7'', conversation_id = js ''c1'', sender = User,
                    msg_text = js ''q4'', created_at = 5\<rparr>]\<rparr>"

text \<open>
  Requests of \<open>POST /api/message\<close> handled one after the other, each with what it finds
  outside: the responses in order, and the database left by the last.
\<close>

fun post_messages ::
  "database \<Rightarrow> (env \<times> request_body) list \<Rightarrow> response list \<times> database" where
  "post_messages db [] = ([], db)"
| "post_messages db ((e, req) # rest) =
     (let r = post_message e db req;
          (rs, db') = post_messages (db_after r) rest
      in (response r # rs, db'))"

text \<open>The times of the two message inserts of each request, in the order of the inserts.\<close>

definition insert_times :: "(env \<times> request_body) list \<Rightarrow> timestamp list" where
  "insert_times reqs = concat (map (\<lambda>(e, req). [now_userMsg e, now_aiMsg e]) reqs)"

text \<open>
  An empty database, and two requests: the first names no conversation, the second names
  the conversation the first created and is served two and three seconds later.
\<close>

definition db_empty :: database where
  "db_empty = \<lparr>conversations = [], messages = []\<rparr>"

definition env_later :: env where
  "env_later =
     env_example\<lparr>uuid_userMsg := js ''m6'', uuid_aiMsg := js ''m7'',
                  now_userMsg := 22, now_aiMsg := 23\<rparr>"

definition requests_example :: "(env \<times> request_body) list" where
  "requests_example =
     [(env_example, \<lparr>message = Some (JString (js ''shipping?'')), conversationId = None\<rparr>),
      (env_later,
       \<lparr>message = Some (JString (js ''returns?'')), conversationId = Some (js ''c3'')\<rparr>)]"

section \<open>Facts about the model\<close>

subsection \<open>Strings, the tables, the loop over the models\<close>

lemma js_inj: "js a = js b \<Longrightarrow> a = b"
proof -
  have "inj (\<lambda>c::char. (of_nat (of_char c) :: 16 word))"
  proof (rule injI)
    fix x y :: char
    assume "(of_nat (of_char x) :: 16 word) = of_nat (of_char y)"
    then have "unat (of_nat (of_char x) :: 16 word) = unat (of_nat (of_char y) :: 16 word)"
      by simp
    moreover have "(of_char x :: nat) < 65536" "(of_char y :: nat) < 65536"
      by (rule less_trans [OF nat_of_char_less_256], simp)+
    ultimately have "(of_char x :: nat) = of_char y"
      by (simp add: unat_of_nat)
    then show "x = y" by simp
  qed
  then show "js a = js b \<Longrightarrow> a = b"
    by (simp add: js_def inj_map_eq_map)
qed

lemma js_eq_iff [simp]: "js a = js b \<longleftrightarrow> a = b"
  using js_inj by auto

lemma js_Nil_iff [simp]: "js s = [] \<longleftrightarrow> s = []"
  by (simp add: js_def)

lemma js_code_unit:
  assumes "c \<in> set (js s)"
  shows "c < 0x100"
proof -
  from assms obtain ch :: char where c: "c = of_nat (of_char ch)"
    by (auto simp: js_def)
  have "unat (of_nat (of_char ch) :: 16 word) = of_char ch"
    by (simp add: unat_of_nat less_trans [OF nat_of_char_less_256])
  then have "unat c < 256"
    by (simp add: c)
  then show ?thesis
    by (simp add: word_less_nat_alt)
qed

lemma utf8_round_trip_id:
  assumes "\<forall>c\<in>set s. \<not> is_high_surrogate c \<and> \<not> is_low_surrogate c"
  shows "utf8_round_trip s = s"
  using assms by (induction s rule: utf8_round_trip.induct) simp_all

lemma utf8_round_trip_js [simp]: "utf8_round_trip (js s) = js s"
proof (rule utf8_round_trip_id, rule ballI)
  fix c assume "c \<in> set (js s)"
  then have "c < 0x100"
    by (rule js_code_unit)
  then show "\<not> is_high_surrogate c \<and> \<not> is_low_surrogate c"
    by (auto simp: is_high_surrogate_def is_low_surrogate_def word_less_nat_alt
        word_le_nat_alt)
qed

lemma utf8_round_trip_apology [simp]: "utf8_round_trip apology = apology"
  by (simp add: apology_def)

lemma trim_Nil: "trim [] = []"
  by (simp add: trim_def)

lemma trim_whitespace:
  assumes "\<forall>c\<in>set s. is_js_whitespace c"
  shows "trim s = []"
proof -
  from assms have d: "dropWhile is_js_whitespace s = []" by (induction s) simp_all
  show ?thesis by (simp only: trim_def d rev.simps dropWhile.simps)
qed

lemma trim_id:
  assumes s: "s \<noteq> []" and h: "\<not> is_js_whitespace (hd s)"
    and l: "\<not> is_js_whitespace (last s)"
  shows "trim s = s"
proof -
  have 1: "dropWhile is_js_whitespace s = s"
    using h by (simp add: dropWhile_eq_self_iff)
  have "hd (rev s) = last s" using s by (simp add: hd_rev)
  then have 2: "dropWhile is_js_whitespace (rev s) = rev s"
    using l by (simp add: dropWhile_eq_self_iff)
  show ?thesis by (simp add: trim_def 1 2)
qed

lemma trim_append_whitespace:
  assumes s: "s \<noteq> []" and h: "\<not> is_js_whitespace (hd s)"
    and l: "\<not> is_js_whitespace (last s)" and w: "\<forall>c\<in>set w. is_js_whitespace c"
  shows "trim (s @ w) = s"
proof -
  have 1: "dropWhile is_js_whitespace (s @ w) = s @ w"
    using s h by (simp add: dropWhile_eq_self_iff)
  have "dropWhile is_js_whitespace (rev w @ rev s) = dropWhile is_js_whitespace (rev s)"
    using w by (intro dropWhile_append2) simp
  moreover have "hd (rev s) = last s"
    using s by (simp add: hd_rev)
  then have "dropWhile is_js_whitespace (rev s) = rev s"
    using l by (simp add: dropWhile_eq_self_iff)
  ultimately show ?thesis
    by (simp add: trim_def 1)
qed

lemma select_conversation_None:
  "select_conversation db cid = None \<longleftrightarrow> cid \<notin> set (map conv_id (conversations db))"
  by (auto simp: select_conversation_def find_None_iff)

lemma select_conversation_Some:
  "select_conversation db cid = Some r \<Longrightarrow> cid \<in> set (map conv_id (conversations db))"
  using select_conversation_None [of db cid] by auto

lemma apology_nonempty: "apology \<noteq> []"
  by (simp add: apology_def js_def)

lemma or_default_nonempty: "d \<noteq> [] \<Longrightarrow> or_default v d \<noteq> []"
  by (cases v) auto

lemma try_models_first_success:
  assumes "\<forall>x\<in>set pre. \<exists>err. cr x msgs = Rejected err"
    and "cr m msgs = Resolved c"
  shows "aiReply (try_models cr msgs (pre @ m # post) st) = or_default (first_content c) apology
       \<and> modelUsed (try_models cr msgs (pre @ m # post) st) = m
       \<and> calls (try_models cr msgs (pre @ m # post) st) =
           calls st @ map (\<lambda>x. (x, msgs)) (pre @ [m])"
  using assms
proof (induction pre arbitrary: st)
  case Nil
  then show ?case by simp
next
  case (Cons a pre)
  from Cons.prems obtain err where a: "cr a msgs = Rejected err" by auto
  have rest: "\<forall>x\<in>set pre. \<exists>err. cr x msgs = Rejected err" using Cons.prems by simp
  show ?case
    using Cons.IH [OF rest Cons.prems(2)] by (simp add: a)
qed

lemma try_models_all_fail:
  assumes "\<forall>x\<in>set ms. \<exists>err. cr x msgs = Rejected err"
  shows "aiReply (try_models cr msgs ms st) = aiReply st
       \<and> calls (try_models cr msgs ms st) = calls st @ map (\<lambda>x. (x, msgs)) ms"
  using assms
proof (induction ms arbitrary: st)
  case Nil
  then show ?case by simp
next
  case (Cons a ms)
  from Cons.prems obtain err where a: "cr a msgs = Rejected err" by auto
  have rest: "\<forall>x\<in>set ms. \<exists>err. cr x msgs = Rejected err" using Cons.prems by simp
  show ?case using Cons.IH [OF rest] by (simp add: a)
qed

lemma try_models_calls:
  "snd ` set (calls (try_models cr msgs ms st)) \<subseteq> snd ` set (calls st) \<union> {msgs}"
proof (induction ms arbitrary: st)
  case Nil
  then show ?case by auto
next
  case (Cons a ms)
  show ?case
  proof (cases "cr a msgs")
    case (Resolved c)
    then show ?thesis by auto
  next
    case (Rejected err)
    have "snd ` set (calls (try_models cr msgs (a # ms) st)) \<subseteq>
          snd ` set (calls (st\<lparr>modelUsed := a, calls := calls st @ [(a, msgs)],
                              lastError := Some err\<rparr>)) \<union> {msgs}"
      using Cons.IH [of "st\<lparr>modelUsed := a, calls := calls st @ [(a, msgs)],
                              lastError := Some err\<rparr>"]
      by (simp add: Rejected)
    then show ?thesis by auto
  qed
qed

lemma post_message_invalid:
  "\<not> valid_message (message req) \<Longrightarrow>
     status (response (post_message e db req)) = 400 \<and>
     db_after (post_message e db req) = db \<and> provider_calls (post_message e db req) = []"
  by (auto simp: valid_message_def post_message_def post_message_try_def Let_def res_json_def)

lemma post_message_valid:
  assumes "valid_message (message req)"
  shows "post_message_try e db req =
     (case resolve_conversation e db (conversationId req) of
            Inl x \<Rightarrow> (Inl x, db, [])
          | Inr (convId, isNewConversation, db1) \<Rightarrow>
              (case insert_message db1 (uuid_userMsg e) convId User (user_message req) (now_userMsg e) of
                 Inl x \<Rightarrow> (Inl x, db1, [])
               | Inr db2 \<Rightarrow>
                   let st = try_models (create e) (build_messages db2 convId (user_message req))
                              modelsToTry loop_start
                   in
                   if aiReply st = [] then
                     (Inl (case lastError st of
                             Some x \<Rightarrow> x
                           | None \<Rightarrow> Error ''All models failed''), db2, calls st)
                   else
                     (case insert_message db2 (uuid_aiMsg e) convId Ai (aiReply st) (now_aiMsg e) of
                        Inl x \<Rightarrow> (Inl x, db2, calls st)
                      | Inr db3 \<Rightarrow>
                          (Inr (res_json 200 (JObject
                             [(''success'', JBool True),
                              (''reply'', JString (aiReply st)),
                              (''conversationId'', JString convId),
                              (''modelUsed'', JString (js (modelUsed st))),
                              (''isNewConversation'', JBool isNewConversation),
                              (''timestamp'', JString (toISOString e))])), db3, calls st))))"
  using assms unfolding user_message_def loop_start_def
  by (simp add: valid_message_def post_message_try_def Let_def)

lemma resolve_conversation_new:
  assumes "supplied = None \<or> supplied = Some [] \<or>
           (\<exists>c. supplied = Some c \<and> c \<notin> set (map conv_id (conversations db)))"
  shows "resolve_conversation e db supplied =
     (case insert_conversation db (uuid_conversation e) (now_conversation e) of
        Inl x \<Rightarrow> Inl x
      | Inr db1 \<Rightarrow> Inr (uuid_conversation e, True, db1))"
  using assms
  by (auto simp: resolve_conversation_def split: option.splits dest: select_conversation_Some)

lemma resolve_conversation_existing:
  assumes "c \<noteq> []" "c \<in> set (map conv_id (conversations db))"
  shows "resolve_conversation e db (Some c) = Inr (c, False, db)"
  using assms select_conversation_None [of db c]
  by (auto simp: resolve_conversation_def split: option.splits)

lemma resolve_conversation_Inr:
  assumes "resolve_conversation e db supplied = Inr (convId, isNew, db1)"
  shows "convId \<in> set (map conv_id (conversations db1)) \<and> messages db1 = messages db \<and>
         (if isNew
          then convId = uuid_conversation e \<and>
               uuid_conversation e \<notin> set (map conv_id (conversations db)) \<and>
               conversations db1 = conversations db @
                 [\<lparr>conv_id = uuid_conversation e, conv_created_at = now_conversation e\<rparr>]
          else supplied = Some convId \<and> db1 = db)"
  using assms
  by (auto simp: resolve_conversation_def insert_conversation_def
      split: option.splits if_splits sum.splits dest: select_conversation_Some)

lemma resolve_conversation_Inl:
  assumes "resolve_conversation e db supplied = Inl x"
  shows "uuid_conversation e \<in> set (map conv_id (conversations db))"
  using assms
  by (auto simp: resolve_conversation_def insert_conversation_def
      split: option.splits if_splits sum.splits)

lemma post_message_success:
  assumes valid: "valid_message (message req)"
    and res: "resolve_conversation e db (conversationId req) = Inr (convId, isNew, db1)"
    and u: "uuid_userMsg e \<notin> set (map msg_id (messages db))"
    and a: "uuid_aiMsg e \<notin> set (map msg_id (messages db))"
    and ua: "uuid_aiMsg e \<noteq> uuid_userMsg e"
    and st: "st = try_models (create e)
               (build_messages
                  (db1\<lparr>messages := messages db @
                     [\<lparr>msg_id = uuid_userMsg e, conversation_id = convId, sender = User,
                       msg_text = utf8_round_trip (user_message req), created_at = now_userMsg e\<rparr>]\<rparr>)
                  convId (user_message req))
               modelsToTry loop_start"
    and reply: "aiReply st \<noteq> []"
  shows "post_message e db req =
     \<lparr>response = res_json 200 (JObject
         [(''success'', JBool True),
          (''reply'', JString (aiReply st)),
          (''conversationId'', JString convId),
          (''modelUsed'', JString (js (modelUsed st))),
          (''isNewConversation'', JBool isNew),
          (''timestamp'', JString (toISOString e))]),
      db_after = db1\<lparr>messages := messages db @
         [\<lparr>msg_id = uuid_userMsg e, conversation_id = convId, sender = User,
           msg_text = utf8_round_trip (user_message req), created_at = now_userMsg e\<rparr>,
          \<lparr>msg_id = uuid_aiMsg e, conversation_id = convId, sender = Ai,
           msg_text = utf8_round_trip (aiReply st), created_at = now_aiMsg e\<rparr>]\<rparr>,
      provider_calls = calls st\<rparr>"
proof -
  from resolve_conversation_Inr [OF res]
  have c: "convId \<in> set (map conv_id (conversations db1))" and m: "messages db1 = messages db"
    by simp_all
  let ?db2 = "db1\<lparr>messages := messages db @
                     [\<lparr>msg_id = uuid_userMsg e, conversation_id = convId, sender = User,
                       msg_text = utf8_round_trip (user_message req), created_at = now_userMsg e\<rparr>]\<rparr>"
  have i1: "insert_message db1 (uuid_userMsg e) convId User (user_message req) (now_userMsg e)
            = Inr ?db2"
    using c u m by (simp add: insert_message_def)
  have i2: "insert_message ?db2 (uuid_aiMsg e) convId Ai (aiReply st) (now_aiMsg e) =
     Inr (db1\<lparr>messages := messages db @
         [\<lparr>msg_id = uuid_userMsg e, conversation_id = convId, sender = User,
           msg_text = utf8_round_trip (user_message req), created_at = now_userMsg e\<rparr>,
          \<lparr>msg_id = uuid_aiMsg e, conversation_id = convId, sender = Ai,
           msg_text = utf8_round_trip (aiReply st), created_at = now_aiMsg e\<rparr>]\<rparr>)"
    using c a ua by (simp add: insert_message_def)
  show ?thesis
    using reply i2
    by (simp add: post_message_def post_message_valid [OF valid] res i1 st [symmetric])
qed

lemma post_message_calls:
  assumes "provider_calls (post_message e db req) \<noteq> []"
  shows "\<exists>convId isNew db1 db2.
           valid_message (message req) \<and>
           resolve_conversation e db (conversationId req) = Inr (convId, isNew, db1) \<and>
           insert_message db1 (uuid_userMsg e) convId User (user_message req) (now_userMsg e) =
             Inr db2 \<and>
           provider_calls (post_message e db req) =
             calls (try_models (create e) (build_messages db2 convId (user_message req))
                      modelsToTry loop_start)"
proof (cases "valid_message (message req)")
  case False
  then show ?thesis using assms post_message_invalid [of req e db] by simp
next
  case True
  show ?thesis
    using assms True
    by (auto simp: post_message_def post_message_valid [OF True] Let_def
        split: sum.splits prod.splits if_splits)
qed

lemma resolve_conversation_fresh:
  assumes "uuid_conversation e \<notin> set (map conv_id (conversations db))"
  shows "\<exists>convId isNew db1. resolve_conversation e db supplied = Inr (convId, isNew, db1)"
proof (cases "resolve_conversation e db supplied")
  case (Inl x)
  then show ?thesis using resolve_conversation_Inl assms by blast
next
  case (Inr p)
  then show ?thesis by (cases p) auto
qed

lemma post_message_first_success:
  assumes valid: "valid_message (message req)"
    and fresh: "fresh_ids e db"
    and split: "modelsToTry = pre @ m # post"
    and pre: "\<forall>x\<in>set pre. \<forall>msgs. \<exists>err. create e x msgs = Rejected err"
    and m: "\<forall>msgs. \<exists>c. create e m msgs = Resolved c \<and> P c"
  shows "\<exists>convId isNew db1 msgs c.
     resolve_conversation e db (conversationId req) = Inr (convId, isNew, db1) \<and>
     create e m msgs = Resolved c \<and> P c \<and>
     post_message e db req =
     \<lparr>response = res_json 200 (JObject
         [(''success'', JBool True),
          (''reply'', JString (or_default (first_content c) apology)),
          (''conversationId'', JString convId),
          (''modelUsed'', JString (js m)),
          (''isNewConversation'', JBool isNew),
          (''timestamp'', JString (toISOString e))]),
      db_after = db1\<lparr>messages := messages db @
         [\<lparr>msg_id = uuid_userMsg e, conversation_id = convId, sender = User,
           msg_text = utf8_round_trip (user_message req), created_at = now_userMsg e\<rparr>,
          \<lparr>msg_id = uuid_aiMsg e, conversation_id = convId, sender = Ai,
           msg_text = utf8_round_trip (or_default (first_content c) apology), created_at = now_aiMsg e\<rparr>]\<rparr>,
      provider_calls = map (\<lambda>x. (x, msgs)) (pre @ [m])\<rparr>"
proof -
  from fresh have f: "uuid_conversation e \<notin> set (map conv_id (conversations db))"
    and u: "uuid_userMsg e \<notin> set (map msg_id (messages db))"
    and a: "uuid_aiMsg e \<notin> set (map msg_id (messages db))"
    and ua: "uuid_aiMsg e \<noteq> uuid_userMsg e"
    by (simp_all add: fresh_ids_def)
  from resolve_conversation_fresh [OF f] obtain convId isNew db1
    where res: "resolve_conversation e db (conversationId req) = Inr (convId, isNew, db1)"
    by blast
  define msgs where "msgs = build_messages
                  (db1\<lparr>messages := messages db @
                     [\<lparr>msg_id = uuid_userMsg e, conversation_id = convId, sender = User,
                       msg_text = utf8_round_trip (user_message req), created_at = now_userMsg e\<rparr>]\<rparr>)
                  convId (user_message req)"
  define st where "st = try_models (create e) msgs modelsToTry loop_start"
  from m obtain c where c: "create e m msgs = Resolved c" and p: "P c" by blast
  have rej: "\<forall>x\<in>set pre. \<exists>err. create e x msgs = Rejected err" using pre by blast
  have loop: "aiReply st = or_default (first_content c) apology \<and> modelUsed st = m \<and>
              calls st = map (\<lambda>x. (x, msgs)) (pre @ [m])"
    using try_models_first_success [of pre "create e" msgs m c post loop_start] rej c
    by (simp add: st_def split loop_start_def)
  have ne: "aiReply st \<noteq> []"
    using loop or_default_nonempty [OF apology_nonempty] by simp
  have "post_message e db req =
     \<lparr>response = res_json 200 (JObject
         [(''success'', JBool True),
          (''reply'', JString (or_default (first_content c) apology)),
          (''conversationId'', JString convId),
          (''modelUsed'', JString (js m)),
          (''isNewConversation'', JBool isNew),
          (''timestamp'', JString (toISOString e))]),
      db_after = db1\<lparr>messages := messages db @
         [\<lparr>msg_id = uuid_userMsg e, conversation_id = convId, sender = User,
           msg_text = utf8_round_trip (user_message req), created_at = now_userMsg e\<rparr>,
          \<lparr>msg_id = uuid_aiMsg e, conversation_id = convId, sender = Ai,
           msg_text = utf8_round_trip (or_default (first_content c) apology), created_at = now_aiMsg e\<rparr>]\<rparr>,
      provider_calls = map (\<lambda>x. (x, msgs)) (pre @ [m])\<rparr>"
    using post_message_success [OF valid res u a ua _ ne] loop
    by (simp add: st_def msgs_def)
  with res c p show ?thesis by blast
qed

lemma valid_message_example: "valid_message (Some (JString (js ''shipping?'')))"
  by (simp add: valid_message_def trim_def js_def is_js_whitespace_def)

lemma fresh_ids_example: "fresh_ids env_example db_example"
  by (simp add: fresh_ids_def env_example_def db_example_def)

lemma select_after_delete: "select_conversation (delete_conversation db cid) cid = None"
  by (auto simp: select_conversation_None delete_conversation_def)

lemma messages_after_delete:
  "filter (\<lambda>m. conversation_id m = cid) (messages (delete_conversation db cid)) = []"
  by (simp add: delete_conversation_def)

subsection \<open>The outcome of a valid request; the history query\<close>

lemma post_message_catch_status:
  "status (post_message_catch x) = 401 \<or> status (post_message_catch x) = 429 \<or>
   status (post_message_catch x) = 500"
  by (simp add: post_message_catch_def res_json_def)

lemma post_message_catch_not_200: "status (post_message_catch x) \<noteq> 200"
  using post_message_catch_status [of x] by auto

lemma try_models_some_resolved:
  assumes "\<exists>m\<in>set ms. \<exists>c. cr m msgs = Resolved c"
  shows "aiReply (try_models cr msgs ms st) \<noteq> []"
  using assms
proof (induction ms arbitrary: st)
  case Nil
  then show ?case by simp
next
  case (Cons a ms)
  show ?case
  proof (cases "cr a msgs")
    case (Resolved c)
    then show ?thesis
      by (simp add: or_default_nonempty [OF apology_nonempty])
  next
    case (Rejected err)
    with Cons.prems have "\<exists>m\<in>set ms. \<exists>c. cr m msgs = Resolved c" by auto
    from Cons.IH [OF this] show ?thesis by (simp add: Rejected)
  qed
qed

lemma post_message_outcome:
  assumes valid: "valid_message (message req)"
    and res: "resolve_conversation e db (conversationId req) = Inr (convId, isNew, db1)"
    and u: "uuid_userMsg e \<notin> set (map msg_id (messages db))"
    and a: "uuid_aiMsg e \<notin> set (map msg_id (messages db))"
    and ua: "uuid_aiMsg e \<noteq> uuid_userMsg e"
    and db2: "db2 = db1\<lparr>messages := messages db @
                     [\<lparr>msg_id = uuid_userMsg e, conversation_id = convId, sender = User,
                       msg_text = utf8_round_trip (user_message req), created_at = now_userMsg e\<rparr>]\<rparr>"
    and st: "st = try_models (create e) (build_messages db2 convId (user_message req))
               modelsToTry loop_start"
  shows "post_message e db req =
     (if aiReply st = [] then
        \<lparr>response = post_message_catch
           (case lastError st of Some x \<Rightarrow> x | None \<Rightarrow> Error ''All models failed''),
         db_after = db2, provider_calls = calls st\<rparr>
      else
        \<lparr>response = res_json 200 (JObject
           [(''success'', JBool True),
            (''reply'', JString (aiReply st)),
            (''conversationId'', JString convId),
            (''modelUsed'', JString (js (modelUsed st))),
            (''isNewConversation'', JBool isNew),
            (''timestamp'', JString (toISOString e))]),
         db_after = db1\<lparr>messages := messages db @
           [\<lparr>msg_id = uuid_userMsg e, conversation_id = convId, sender = User,
             msg_text = utf8_round_trip (user_message req), created_at = now_userMsg e\<rparr>,
            \<lparr>msg_id = uuid_aiMsg e, conversation_id = convId, sender = Ai,
             msg_text = utf8_round_trip (aiReply st), created_at = now_aiMsg e\<rparr>]\<rparr>,
         provider_calls = calls st\<rparr>)"
proof (cases "aiReply st = []")
  case False
  then show ?thesis
    using post_message_success [OF valid res u a ua, of st] st db2 by simp
next
  case True
  from resolve_conversation_Inr [OF res]
  have c: "convId \<in> set (map conv_id (conversations db1))" and m: "messages db1 = messages db"
    by simp_all
  have i1: "insert_message db1 (uuid_userMsg e) convId User (user_message req) (now_userMsg e)
            = Inr db2"
    using c u m by (simp add: insert_message_def db2)
  show ?thesis
    using True
    by (simp add: post_message_def post_message_valid [OF valid] res i1 st [symmetric])
qed

lemma history_drop:
  "history db convId =
     drop (length (select_messages_asc db convId) - 6) (select_messages_asc db convId)"
  by (simp add: history_def select_messages_desc_limit6_def rev_take)

lemma select_messages_asc_sorted: "sorted (map created_at (select_messages_asc db convId))"
  by (simp add: select_messages_asc_def)

lemma history_sorted: "sorted (map created_at (history db convId))"
  unfolding history_drop drop_map [symmetric]
  by (rule sorted_wrt_drop) (rule select_messages_asc_sorted)

lemma history_length: "length (history db convId) \<le> 6"
  by (simp add: history_def select_messages_desc_limit6_def)

subsection \<open>Successive requests\<close>

lemma insert_message_Inr:
  assumes "insert_message db mid cid s t now = Inr db'"
  shows "db' = db\<lparr>messages := messages db @
           [\<lparr>msg_id = mid, conversation_id = cid, sender = s, msg_text = utf8_round_trip t,
             created_at = now\<rparr>]\<rparr>"
  using assms by (auto simp: insert_message_def split: if_splits)

lemma post_message_200:
  assumes "status (response (post_message e db req)) = 200"
  shows "\<exists>convId u a.
     field (body (response (post_message e db req))) ''conversationId'' =
       Some (JString convId) \<and>
     convId \<in> set (map conv_id (conversations (db_after (post_message e db req)))) \<and>
     messages (db_after (post_message e db req)) = messages db @ [u, a] \<and>
     conversation_id u = convId \<and> conversation_id a = convId \<and>
     sender u = User \<and> sender a = Ai \<and>
     created_at u = now_userMsg e \<and> created_at a = now_aiMsg e"
proof (cases "valid_message (message req)")
  case False
  from post_message_invalid [OF this, of e db] assms show ?thesis by simp
next
  case True
  note pm = post_message_def post_message_valid [OF True]
  show ?thesis
  proof (cases "resolve_conversation e db (conversationId req)")
    case (Inl x)
    with assms post_message_catch_not_200 show ?thesis by (simp add: pm)
  next
    case (Inr p)
    obtain convId isNew db1 where p: "p = (convId, isNew, db1)" by (cases p) auto
    note res = Inr [unfolded p]
    from resolve_conversation_Inr [OF res]
    have c: "convId \<in> set (map conv_id (conversations db1))" and m: "messages db1 = messages db"
      by simp_all
    show ?thesis
    proof (cases "insert_message db1 (uuid_userMsg e) convId User (user_message req)
                    (now_userMsg e)")
      case (Inl x)
      with assms post_message_catch_not_200 show ?thesis by (simp add: pm res)
    next
      case (Inr db2)
      note i1 = this
      note d2 = insert_message_Inr [OF i1]
      define st where "st = try_models (create e)
         (build_messages db2 convId (user_message req)) modelsToTry loop_start"
      show ?thesis
      proof (cases "aiReply st = []")
        case True
        with assms post_message_catch_not_200 show ?thesis
          by (simp add: pm res i1 st_def [symmetric])
      next
        case False
        note ne = this
        show ?thesis
        proof (cases "insert_message db2 (uuid_aiMsg e) convId Ai (aiReply st) (now_aiMsg e)")
          case (Inl x)
          with assms post_message_catch_not_200 ne show ?thesis
            by (simp add: pm res i1 st_def [symmetric])
        next
          case (Inr db3)
          note d3 = insert_message_Inr [OF Inr]
          have r: "post_message e db req =
            \<lparr>response = res_json 200 (JObject
               [(''success'', JBool True),
                (''reply'', JString (aiReply st)),
                (''conversationId'', JString convId),
                (''modelUsed'', JString (js (modelUsed st))),
                (''isNewConversation'', JBool isNew),
                (''timestamp'', JString (toISOString e))]),
             db_after = db3, provider_calls = calls st\<rparr>"
            using ne by (simp add: pm res i1 st_def [symmetric] Inr)
          show ?thesis
            unfolding r using c m by (simp add: d3 d2 res_json_def)
        qed
      qed
    qed
  qed
qed

lemma insert_message_conversations:
  "insert_message db mid cid s t now = Inr db' \<Longrightarrow> conversations db' = conversations db"
  by (auto simp: insert_message_def split: if_splits)

lemma post_message_keeps_conversations:
  "set (conversations db) \<subseteq> set (conversations (db_after (post_message e db req)))"
proof (cases "valid_message (message req)")
  case False
  from post_message_invalid [OF this, of e db] show ?thesis by simp
next
  case True
  have r: "set (conversations db) \<subseteq> set (conversations db1)"
    if "resolve_conversation e db (conversationId req) = Inr (convId, isNew, db1)"
    for convId isNew db1
    using resolve_conversation_Inr [OF that] by (cases isNew) auto
  show ?thesis
    using r
    by (auto simp: post_message_def post_message_valid [OF True] Let_def
        split: sum.splits prod.splits if_splits dest!: insert_message_conversations)
qed

lemma post_messages_Cons:
  "post_messages db ((e, req) # reqs) =
     (response (post_message e db req) #
        fst (post_messages (db_after (post_message e db req)) reqs),
      snd (post_messages (db_after (post_message e db req)) reqs))"
  by (simp add: Let_def case_prod_beta)

lemma post_messages_keeps_conversations:
  "set (conversations db) \<subseteq> set (conversations (snd (post_messages db reqs)))"
proof (induction reqs arbitrary: db)
  case Nil
  then show ?case by simp
next
  case (Cons p reqs)
  obtain e req where p: "p = (e, req)" by (cases p)
  have "set (conversations db) \<subseteq> set (conversations (db_after (post_message e db req)))"
    by (rule post_message_keeps_conversations)
  also have "\<dots> \<subseteq> set (conversations
      (snd (post_messages (db_after (post_message e db req)) reqs)))"
    by (rule Cons.IH)
  finally show ?case
    by (simp add: p post_messages_Cons del: post_messages.simps)
qed

lemma post_messages_rows:
  assumes "\<forall>r\<in>set (fst (post_messages db reqs)).
             status r = 200 \<and> field (body r) ''conversationId'' = Some (JString cid)"
  shows "\<exists>rows.
     filter (\<lambda>m. conversation_id m = cid) (messages (snd (post_messages db reqs))) =
       filter (\<lambda>m. conversation_id m = cid) (messages db) @ rows \<and>
     map sender rows = concat (replicate (length reqs) [User, Ai]) \<and>
     map created_at rows = insert_times reqs \<and>
     (reqs \<noteq> [] \<longrightarrow> cid \<in> set (map conv_id (conversations (snd (post_messages db reqs)))))"
  using assms
proof (induction reqs arbitrary: db)
  case Nil
  then show ?case by (simp add: insert_times_def)
next
  case (Cons p reqs)
  obtain e req where p: "p = (e, req)" by (cases p)
  let ?r = "post_message e db req"
  have unf: "post_messages db (p # reqs) =
     (response ?r # fst (post_messages (db_after ?r) reqs),
      snd (post_messages (db_after ?r) reqs))"
    by (simp add: p post_messages_Cons del: post_messages.simps)
  from Cons.prems have ok: "status (response ?r) = 200"
    and cid: "field (body (response ?r)) ''conversationId'' = Some (JString cid)"
    and rest: "\<forall>r\<in>set (fst (post_messages (db_after ?r) reqs)).
             status r = 200 \<and> field (body r) ''conversationId'' = Some (JString cid)"
    by (simp_all add: unf)
  from post_message_200 [OF ok] cid obtain u a where
    c: "cid \<in> set (map conv_id (conversations (db_after ?r)))" and
    m: "messages (db_after ?r) = messages db @ [u, a]" and
    ua: "conversation_id u = cid" "conversation_id a = cid" "sender u = User" "sender a = Ai"
      "created_at u = now_userMsg e" "created_at a = now_aiMsg e"
    by auto
  from Cons.IH [OF rest] obtain rows where
    f: "filter (\<lambda>m. conversation_id m = cid)
          (messages (snd (post_messages (db_after ?r) reqs))) =
        filter (\<lambda>m. conversation_id m = cid) (messages (db_after ?r)) @ rows" and
    s: "map sender rows = concat (replicate (length reqs) [User, Ai])" and
    t: "map created_at rows = insert_times reqs"
    by blast
  have c': "cid \<in> set (map conv_id (conversations (snd (post_messages (db_after ?r) reqs))))"
    using c post_messages_keeps_conversations [of "db_after ?r" reqs] by auto
  have "filter (\<lambda>m. conversation_id m = cid) (messages (snd (post_messages db (p # reqs)))) =
       filter (\<lambda>m. conversation_id m = cid) (messages db) @ (u # a # rows)"
    by (simp add: unf f m ua)
  moreover have "map sender (u # a # rows) = concat (replicate (length (p # reqs)) [User, Ai])"
    by (simp add: s ua)
  moreover have "map created_at (u # a # rows) = insert_times (p # reqs)"
    using t by (simp add: ua insert_times_def p)
  moreover have "cid \<in> set (map conv_id (conversations (snd (post_messages db (p # reqs)))))"
    using c' by (simp add: unf)
  ultimately show ?case by blast
qed

section \<open>The claims\<close>

subsection \<open>Deleting a conversation\<close>

text \<open>
  C1. For a conversation id that is stored, \<open>DELETE /api/conversation/:id\<close> answers 200
  with \<open>{success: true, conversationId}\<close>; on the database it leaves,
  \<open>GET /api/conversation/:id\<close> answers 404 and no row of \<open>messages\<close> has that
  \<open>conversation_id\<close>.
\<close>

theorem delete_then_get_not_found:
  assumes "cid \<in> set (map conv_id (conversations db))"
  shows "fst (delete_conversation_handler db cid) =
           res_json 200 (JObject [(''success'', JBool True), (''conversationId'', JString cid)])
       \<and> get_conversation (snd (delete_conversation_handler db cid)) cid =
           res_json 404 (JObject [(''error'', JString (js ''Conversation not found''))])
       \<and> filter (\<lambda>m. conversation_id m = cid)
            (messages (snd (delete_conversation_handler db cid))) = []
       \<and> count_messages (snd (delete_conversation_handler db cid)) cid = 0"
proof -
  from assms obtain r where r: "select_conversation db cid = Some r"
    using select_conversation_None [of db cid] by (cases "select_conversation db cid") auto
  have d: "delete_conversation_handler db cid =
      (res_json 200 (JObject [(''success'', JBool True), (''conversationId'', JString cid)]),
       delete_conversation db cid)"
    by (simp add: delete_conversation_handler_def r)
  show ?thesis
    by (simp add: d get_conversation_def select_after_delete messages_after_delete
        count_messages_def)
qed

theorem delete_then_get_not_found_witness:
  "js ''c1'' \<in> set (map conv_id (conversations db_example))
   \<and> fst (delete_conversation_handler db_example (js ''c1'')) =
       res_json 200
         (JObject [(''success'', JBool True), (''conversationId'', JString (js ''c1''))])
   \<and> get_conversation (snd (delete_conversation_handler db_example (js ''c1''))) (js ''c1'') =
       res_json 404 (JObject [(''error'', JString (js ''Conversation not found''))])
   \<and> filter (\<lambda>m. conversation_id m = js ''c1'')
        (messages (snd (delete_conversation_handler db_example (js ''c1'')))) = []
   \<and> messages (snd (delete_conversation_handler db_example (js ''c1''))) =
        [\<lparr>msg_id = js ''m3'', conversation_id = js ''c2'', sender = User,
          msg_text = js ''returns?'', created_at = 12\<rparr>]"
proof -
  have h: "js ''c1'' \<in> set (map conv_id (conversations db_example))"
    by (simp add: db_example_def)
  have m: "messages (snd (delete_conversation_handler db_example (js ''c1''))) =
        [\<lparr>msg_id = js ''m3'', conversation_id = js ''c2'', sender = User,
          msg_text = js ''returns?'', created_at = 12\<rparr>]"
    by (simp add: delete_conversation_handler_def select_conversation_def db_example_def
        delete_conversation_def)
  from delete_then_get_not_found [OF h] h m show ?thesis by simp
qed

subsection \<open>Empty and blank messages\<close>

text \<open>
  C2, as the claim states it, fails for the empty string: \<open>!message\<close> holds of \<open>""\<close>, so
  the first guard answers, with the error of a missing message, and the guard for an
  empty trimmed message is not reached.
\<close>

theorem empty_string_reported_missing:
  "response (post_message env_example db_example
      \<lparr>message = Some (JString []), conversationId = None\<rparr>) =
     res_json 400 (JObject
       [(''error'', JString (js ''Message is required and must be a string''))]) \<and>
   response (post_message env_example db_example
      \<lparr>message = Some (JString []), conversationId = None\<rparr>) \<noteq>
     res_json 400 (JObject [(''error'', JString (js ''Message cannot be empty''))])"
  by (simp add: post_message_def post_message_try_def res_json_def)

text \<open>
  C2, amended. A message that is not empty and holds whitespace only (\<open>"   "\<close>) is
  answered 400 with \<open>Message cannot be empty\<close>; the empty string is answered 400 with
  \<open>Message is required and must be a string\<close>.
\<close>

theorem blank_message_rejected:
  "(s \<noteq> [] \<and> (\<forall>c\<in>set s. is_js_whitespace c) \<longrightarrow>
      response (post_message e db \<lparr>message = Some (JString s), conversationId = c\<rparr>) =
        res_json 400 (JObject [(''error'', JString (js ''Message cannot be empty''))])) \<and>
   response (post_message e db \<lparr>message = Some (JString []), conversationId = c\<rparr>) =
     res_json 400 (JObject
       [(''error'', JString (js ''Message is required and must be a string''))])"
proof -
  have "response (post_message e db \<lparr>message = Some (JString s), conversationId = c\<rparr>) =
        res_json 400 (JObject [(''error'', JString (js ''Message cannot be empty''))])"
    if "s \<noteq> []" "\<forall>c\<in>set s. is_js_whitespace c"
    using that by (simp add: post_message_def post_message_try_def trim_whitespace)
  moreover
  have "response (post_message e db \<lparr>message = Some (JString []), conversationId = c\<rparr>) =
     res_json 400 (JObject
       [(''error'', JString (js ''Message is required and must be a string''))])"
    by (simp add: post_message_def post_message_try_def)
  ultimately show ?thesis by blast
qed

theorem blank_message_rejected_witness:
  "js ''   '' \<noteq> [] \<and> list_all is_js_whitespace (js ''   '') \<and>
   response (post_message env_example db_example
      \<lparr>message = Some (JString (js ''   '')), conversationId = None\<rparr>) =
     res_json 400 (JObject [(''error'', JString (js ''Message cannot be empty''))]) \<and>
   response (post_message env_example db_example
      \<lparr>message = Some (JString []), conversationId = None\<rparr>) =
     res_json 400 (JObject
       [(''error'', JString (js ''Message is required and must be a string''))])"
proof -
  have h: "js ''   '' \<noteq> [] \<and> (\<forall>c\<in>set (js ''   ''). is_js_whitespace c)"
    by (simp add: js_def is_js_whitespace_def)
  from blank_message_rejected [of "js ''   ''" env_example db_example None] h
  show ?thesis by (simp add: list_all_iff)
qed

subsection \<open>Falling back to the second model\<close>



subsection \<open>The context sent to the provider\<close>

text \<open>
  C4. Every call of the provider made by \<open>POST /api/message\<close> is given the turns: the
  system turn of \<open>STORE_INFO\<close>, then the turns of at most six stored messages, then the
  user turn of the trimmed message. The six are the last six of the conversation's
  messages in ascending \<open>created_at\<close> as stored when the call is made (the user message
  of the request is stored by then), in that order, oldest first.
\<close>

theorem provider_context_six_most_recent:
  assumes "(model, msgs) \<in> set (provider_calls (post_message e db req))"
  shows "\<exists>convId isNew db1 db2 hist.
     resolve_conversation e db (conversationId req) = Inr (convId, isNew, db1) \<and>
     insert_message db1 (uuid_userMsg e) convId User (user_message req) (now_userMsg e) =
       Inr db2 \<and>
     msgs = \<lparr>role = RoleSystem, content = STORE_INFO\<rparr> # map history_turn hist @
            [\<lparr>role = RoleUser, content = user_message req\<rparr>] \<and>
     length hist \<le> 6 \<and>
     hist = drop (length (select_messages_asc db2 convId) - 6) (select_messages_asc db2 convId) \<and>
     sorted (map created_at (select_messages_asc db2 convId)) \<and>
     sorted (map created_at hist)"
proof -
  from assms have "provider_calls (post_message e db req) \<noteq> []"
    by auto
  from post_message_calls [OF this] obtain convId isNew db1 db2 where
    res: "resolve_conversation e db (conversationId req) = Inr (convId, isNew, db1)" and
    ins: "insert_message db1 (uuid_userMsg e) convId User (user_message req) (now_userMsg e) =
          Inr db2" and
    cs: "provider_calls (post_message e db req) =
         calls (try_models (create e) (build_messages db2 convId (user_message req))
                  modelsToTry loop_start)"
    by blast
  have "msgs \<in> snd ` set (provider_calls (post_message e db req))"
    using assms by force
  then have "msgs = build_messages db2 convId (user_message req)"
    using try_models_calls
      [of "create e" "build_messages db2 convId (user_message req)" modelsToTry loop_start]
    by (auto simp: cs loop_start_def)
  then have m: "msgs = \<lparr>role = RoleSystem, content = STORE_INFO\<rparr> #
       map history_turn (history db2 convId) @
       [\<lparr>role = RoleUser, content = user_message req\<rparr>]"
    by (simp add: build_messages_def)
  show ?thesis
    using res ins m history_length [of db2 convId] history_drop [of db2 convId]
      select_messages_asc_sorted [of db2 convId] history_sorted [of db2 convId]
    by blast
qed

theorem provider_context_six_most_recent_witness:
  "(''llama-3.2-3b-preview'',
    [\<lparr>role = RoleSystem, content = STORE_INFO\<rparr>,
     \<lparr>role = RoleUser, content = js ''q2''\<rparr>,
     \<lparr>role = RoleAssistant, content = js ''r2''\<rparr>,
     \<lparr>role = RoleUser, content = js ''q3''\<rparr>,
     \<lparr>role = RoleAssistant, content = js ''r3''\<rparr>,
     \<lparr>role = RoleUser, content = js ''q4''\<rparr>,
     \<lparr>role = RoleUser, content = js ''shipping?''\<rparr>,
     \<lparr>role = RoleUser, content = js ''shipping?''\<rparr>])
     \<in> set (provider_calls (post_message env_example db_long
           \<lparr>message = Some (JString (js '' shipping? '')), conversationId = Some (js ''c1'')\<rparr>))
   \<and> (\<exists>convId isNew db1 db2 hist.
     resolve_conversation env_example db_long
       (conversationId
          \<lparr>message = Some (JString (js '' shipping? '')), conversationId = Some (js ''c1'')\<rparr>) =
       Inr (convId, isNew, db1) \<and>
     insert_message db1 (uuid_userMsg env_example) convId User
       (user_message
          \<lparr>message = Some (JString (js '' shipping? '')), conversationId = Some (js ''c1'')\<rparr>)
       (now_userMsg env_example) = Inr db2 \<and>
     [\<lparr>role = RoleSystem, content = STORE_INFO\<rparr>,
      \<lparr>role = RoleUser, content = js ''q2''\<rparr>,
      \<lparr>role = RoleAssistant, content = js ''r2''\<rparr>,
      \<lparr>role = RoleUser, content = js ''q3''\<rparr>,
      \<lparr>role = RoleAssistant, content = js ''r3''\<rparr>,
      \<lparr>role = RoleUser, content = js ''q4''\<rparr>,
      \<lparr>role = RoleUser, content = js ''shipping?''\<rparr>,
      \<lparr>role = RoleUser, content = js ''shipping?''\<rparr>] =
       \<lparr>role = RoleSystem, content = STORE_INFO\<rparr> # map history_turn hist @
         [\<lparr>role = RoleUser, content = user_message
            \<lparr>message = Some (JString (js '' shipping? '')),
              conversationId = Some (js ''c1'')\<rparr>\<rparr>] \<and>
     length hist \<le> 6 \<and>
     hist = drop (length (select_messages_asc db2 convId) - 6) (select_messages_asc db2 convId) \<and>
     sorted (map created_at (select_messages_asc db2 convId)) \<and>
     sorted (map created_at hist))"
proof -
  let ?req = "\<lparr>message = Some (JString (js '' shipping? '')),
               conversationId = Some (js ''c1'')\<rparr>"
  let ?msgs = "[\<lparr>role = RoleSystem, content = STORE_INFO\<rparr>,
     \<lparr>role = RoleUser, content = js ''q2''\<rparr>,
     \<lparr>role = RoleAssistant, content = js ''r2''\<rparr>,
     \<lparr>role = RoleUser, content = js ''q3''\<rparr>,
     \<lparr>role = RoleAssistant, content = js ''r3''\<rparr>,
     \<lparr>role = RoleUser, content = js ''q4''\<rparr>,
     \<lparr>role = RoleUser, content = js ''shipping?''\<rparr>,
     \<lparr>role = RoleUser, content = js ''shipping?''\<rparr>]"
  have t: "trim (js '' shipping? '') = js ''shipping?''"
    by (simp add: trim_def js_def is_js_whitespace_def)
  have um: "user_message ?req = js ''shipping?''"
    by (simp add: user_message_def t)
  have v: "valid_message (message ?req)"
    by (simp add: valid_message_def t) (simp add: js_def)
  have res: "resolve_conversation env_example db_long (conversationId ?req) =
             Inr (js ''c1'', False, db_long)"
    by (simp add: resolve_conversation_def select_conversation_def db_long_def)
  let ?db2 = "db_long\<lparr>messages := messages db_long @
                     [\<lparr>msg_id = uuid_userMsg env_example, conversation_id = js ''c1'',
                       sender = User, msg_text = utf8_round_trip (user_message ?req),
                       created_at = now_userMsg env_example\<rparr>]\<rparr>"
  have b: "build_messages ?db2 (js ''c1'') (user_message ?req) = ?msgs"
    by (simp add: um build_messages_def history_def select_messages_desc_limit6_def
        select_messages_asc_def db_long_def env_example_def history_turn_def)
  define st where "st = try_models (create env_example)
     (build_messages ?db2 (js ''c1'') (user_message ?req)) modelsToTry loop_start"
  have ai: "aiReply st \<noteq> []"
    unfolding st_def by (rule try_models_some_resolved) (simp add: env_example_def modelsToTry_def)
  have cs: "calls st = [(''llama-3.1-8b-instant'', ?msgs), (''llama-3.2-3b-preview'', ?msgs)]"
    unfolding st_def b by (simp add: modelsToTry_def loop_start_def env_example_def)
  have u: "uuid_userMsg env_example \<notin> set (map msg_id (messages db_long))"
    and a: "uuid_aiMsg env_example \<notin> set (map msg_id (messages db_long))"
    and ua: "uuid_aiMsg env_example \<noteq> uuid_userMsg env_example"
    by (simp_all add: env_example_def db_long_def)
  have "provider_calls (post_message env_example db_long ?req) = calls st"
    using post_message_outcome [OF v res u a ua refl st_def] ai by simp
  then have h: "(''llama-3.2-3b-preview'', ?msgs) \<in>
      set (provider_calls (post_message env_example db_long ?req))"
    by (simp add: cs)
  from provider_context_six_most_recent [OF h] h
  show ?thesis by blast
qed

subsection \<open>An unknown conversation id\<close>

text \<open>
  C5. A valid message posted with a \<open>conversationId\<close> that no row of \<open>conversations\<close>
  holds, when \<open>uuidv4()\<close> returns new ids: a conversation row with the generated id is
  added; no message row is added under the supplied id; the 200 response carries
  \<open>isNewConversation: true\<close> and the generated id as \<open>conversationId\<close>, and the response
  is the 200 one as soon as the call for one candidate resolves.
\<close>

theorem unknown_conversation_id_replaced:
  assumes "conversationId req = Some supplied"
    and "supplied \<notin> set (map conv_id (conversations db))"
    and "valid_message (message req)"
    and "fresh_ids e db"
    and "uuid_conversation e \<noteq> supplied"
  shows "conversations (db_after (post_message e db req)) =
           conversations db @
             [\<lparr>conv_id = uuid_conversation e, conv_created_at = now_conversation e\<rparr>] \<and>
         filter (\<lambda>m. conversation_id m = supplied) (messages (db_after (post_message e db req))) =
           filter (\<lambda>m. conversation_id m = supplied) (messages db) \<and>
         (status (response (post_message e db req)) = 200 \<longrightarrow>
            field (body (response (post_message e db req))) ''isNewConversation'' =
              Some (JBool True) \<and>
            field (body (response (post_message e db req))) ''conversationId'' =
              Some (JString (uuid_conversation e))) \<and>
         ((\<exists>m\<in>set modelsToTry. \<forall>msgs. \<exists>c. create e m msgs = Resolved c) \<longrightarrow>
            status (response (post_message e db req)) = 200)"
proof -
  from assms(4) have f: "uuid_conversation e \<notin> set (map conv_id (conversations db))"
    and u: "uuid_userMsg e \<notin> set (map msg_id (messages db))"
    and a: "uuid_aiMsg e \<notin> set (map msg_id (messages db))"
    and ua: "uuid_aiMsg e \<noteq> uuid_userMsg e"
    by (simp_all add: fresh_ids_def)
  define db1 where "db1 = db\<lparr>conversations := conversations db @
             [\<lparr>conv_id = uuid_conversation e, conv_created_at = now_conversation e\<rparr>]\<rparr>"
  have res: "resolve_conversation e db (conversationId req) =
             Inr (uuid_conversation e, True, db1)"
    using resolve_conversation_new [of "conversationId req" db e] assms(1,2) f
    by (simp add: insert_conversation_def db1_def)
  define db2 where "db2 = db1\<lparr>messages := messages db @
                     [\<lparr>msg_id = uuid_userMsg e, conversation_id = uuid_conversation e,
                       sender = User, msg_text = utf8_round_trip (user_message req),
                       created_at = now_userMsg e\<rparr>]\<rparr>"
  define st where "st = try_models (create e)
     (build_messages db2 (uuid_conversation e) (user_message req)) modelsToTry loop_start"
  note out = post_message_outcome [OF assms(3) res u a ua db2_def st_def]
  have 1: "conversations (db_after (post_message e db req)) =
           conversations db @
             [\<lparr>conv_id = uuid_conversation e, conv_created_at = now_conversation e\<rparr>]"
    by (simp add: out db2_def db1_def)
  have 2: "filter (\<lambda>m. conversation_id m = supplied)
             (messages (db_after (post_message e db req))) =
           filter (\<lambda>m. conversation_id m = supplied) (messages db)"
    using assms(5) by (simp add: out db2_def db1_def)
  have 3: "field (body (response (post_message e db req))) ''isNewConversation'' =
              Some (JBool True) \<and>
            field (body (response (post_message e db req))) ''conversationId'' =
              Some (JString (uuid_conversation e))"
    if "status (response (post_message e db req)) = 200"
    using that post_message_catch_not_200
    by (cases "aiReply st = []") (simp_all add: out res_json_def)
  have 4: "status (response (post_message e db req)) = 200"
    if "\<exists>m\<in>set modelsToTry. \<forall>msgs. \<exists>c. create e m msgs = Resolved c"
  proof -
    from that have "\<exists>m\<in>set modelsToTry. \<exists>c.
       create e m (build_messages db2 (uuid_conversation e) (user_message req)) = Resolved c"
      by blast
    then have "aiReply st \<noteq> []"
      unfolding st_def by (rule try_models_some_resolved)
    then show ?thesis by (simp add: out res_json_def)
  qed
  from 1 2 3 4 show ?thesis by blast
qed

theorem unknown_conversation_id_replaced_witness:
  "conversationId
     \<lparr>message = Some (JString (js ''shipping?'')), conversationId = Some (js ''c9'')\<rparr> =
     Some (js ''c9'') \<and>
   js ''c9'' \<notin> set (map conv_id (conversations db_example)) \<and>
   valid_message (message
     \<lparr>message = Some (JString (js ''shipping?'')), conversationId = Some (js ''c9'')\<rparr>) \<and>
   fresh_ids env_example db_example \<and>
   uuid_conversation env_example \<noteq> js ''c9'' \<and>
   conversations (db_after (post_message env_example db_example
     \<lparr>message = Some (JString (js ''shipping?'')), conversationId = Some (js ''c9'')\<rparr>)) =
     conversations db_example @ [\<lparr>conv_id = js ''c3'', conv_created_at = 20\<rparr>] \<and>
   filter (\<lambda>m. conversation_id m = js ''c9'')
     (messages (db_after (post_message env_example db_example
        \<lparr>message = Some (JString (js ''shipping?'')), conversationId = Some (js ''c9'')\<rparr>))) =
     [] \<and>
   status (response (post_message env_example db_example
     \<lparr>message = Some (JString (js ''shipping?'')), conversationId = Some (js ''c9'')\<rparr>)) =
     200 \<and>
   field (body (response (post_message env_example db_example
     \<lparr>message = Some (JString (js ''shipping?'')), conversationId = Some (js ''c9'')\<rparr>)))
     ''isNewConversation'' = Some (JBool True) \<and>
   field (body (response (post_message env_example db_example
     \<lparr>message = Some (JString (js ''shipping?'')), conversationId = Some (js ''c9'')\<rparr>)))
     ''conversationId'' = Some (JString (js ''c3''))"
proof -
  let ?req = "\<lparr>message = Some (JString (js ''shipping?'')), conversationId = Some (js ''c9'')\<rparr>"
  have h1: "conversationId ?req = Some (js ''c9'')"
    by simp
  have h2: "js ''c9'' \<notin> set (map conv_id (conversations db_example))"
    by (simp add: db_example_def)
  have h3: "valid_message (message ?req)"
    by (simp add: valid_message_example)
  have h5: "uuid_conversation env_example \<noteq> js ''c9''"
    by (simp add: env_example_def)
  have m: "\<exists>m\<in>set modelsToTry. \<forall>msgs. \<exists>c. create env_example m msgs = Resolved c"
    by (simp add: modelsToTry_def env_example_def)
  have e: "uuid_conversation env_example = js ''c3''" "now_conversation env_example = 20"
    by (simp_all add: env_example_def)
  have d: "filter (\<lambda>m. conversation_id m = js ''c9'') (messages db_example) = []"
    by (simp add: db_example_def)
  from unknown_conversation_id_replaced [OF h1 h2 h3 fresh_ids_example h5] m
    h1 h2 h3 fresh_ids_example h5
  show ?thesis unfolding e d by blast
qed

subsection \<open>Validation comes before any effect\<close>

text \<open>
  C6. When the message fails a guard of the validation (it is missing, not a string or
  the empty string; or empty once trimmed; or longer than 1000 once trimmed), the
  response is a 400, the database is left as it was (no conversation row, no message
  row) and the provider is not called.
\<close>

theorem invalid_message_no_effect:
  assumes "falsy (message req) \<or> \<not> is_string (message req) \<or>
           length (trim (string_of (message req))) = 0 \<or>
           length (trim (string_of (message req))) > 1000"
  shows "status (response (post_message e db req)) = 400 \<and>
         db_after (post_message e db req) = db \<and>
         provider_calls (post_message e db req) = []"
proof -
  from assms have "\<not> valid_message (message req)"
    by (auto simp: valid_message_def)
  then show ?thesis
    by (rule post_message_invalid)
qed

theorem invalid_message_no_effect_witness:
  "(falsy (message \<lparr>message = Some (JNumber 7), conversationId = Some (js ''c9'')\<rparr>) \<or>
    \<not> is_string (message \<lparr>message = Some (JNumber 7), conversationId = Some (js ''c9'')\<rparr>) \<or>
    length (trim (string_of
      (message \<lparr>message = Some (JNumber 7), conversationId = Some (js ''c9'')\<rparr>))) = 0 \<or>
    length (trim (string_of
      (message \<lparr>message = Some (JNumber 7), conversationId = Some (js ''c9'')\<rparr>))) > 1000) \<and>
   status (response (post_message env_example db_example
     \<lparr>message = Some (JNumber 7), conversationId = Some (js ''c9'')\<rparr>)) = 400 \<and>
   db_after (post_message env_example db_example
     \<lparr>message = Some (JNumber 7), conversationId = Some (js ''c9'')\<rparr>) = db_example \<and>
   provider_calls (post_message env_example db_example
     \<lparr>message = Some (JNumber 7), conversationId = Some (js ''c9'')\<rparr>) = []"
proof -
  let ?req = "\<lparr>message = Some (JNumber 7), conversationId = Some (js ''c9'')\<rparr>"
  have h: "falsy (message ?req) \<or> \<not> is_string (message ?req) \<or>
           length (trim (string_of (message ?req))) = 0 \<or>
           length (trim (string_of (message ?req))) > 1000"
    by simp
  from invalid_message_no_effect [OF h, of env_example db_example] h
  show ?thesis by simp
qed

subsection \<open>Messages that are too long\<close>

text \<open>
  C7, as the claim states it, fails: the length tested is the length after \<open>trim()\<close>. A
  message of 1000 letters and one trailing space has length 1001 and is accepted.
\<close>

theorem length_1001_accepted:
  "length (replicate 1000 (0x61 :: 16 word) @ [0x20]) = 1001 \<and>
   status (response (post_message env_example db_example
     \<lparr>message = Some (JString (replicate 1000 0x61 @ [0x20])), conversationId = None\<rparr>)) =
     200"
proof -
  let ?req = "\<lparr>message = Some (JString (replicate 1000 0x61 @ [0x20])),
               conversationId = None\<rparr>"
  have t: "trim (replicate 1000 (0x61 :: 16 word) @ [0x20]) = replicate 1000 0x61"
    by (rule trim_append_whitespace) (simp_all add: is_js_whitespace_def)
  have v: "valid_message (message ?req)"
    by (simp add: valid_message_def t)
  have s: "modelsToTry = [''llama-3.1-8b-instant''] @ ''llama-3.2-3b-preview'' #
                 [''gemma2-9b-it'', ''llama-3.2-1b-preview'']"
    by (simp add: modelsToTry_def)
  have p: "\<forall>x\<in>set [''llama-3.1-8b-instant'']. \<forall>msgs. \<exists>err.
      create env_example x msgs = Rejected err"
    by (simp add: env_example_def)
  have m: "\<forall>msgs. \<exists>c. create env_example ''llama-3.2-3b-preview'' msgs = Resolved c \<and> True"
    by (simp add: env_example_def)
  from post_message_first_success [OF v fresh_ids_example s p m]
  have "status (response (post_message env_example db_example ?req)) = 200"
    by (auto simp: res_json_def)
  then show ?thesis by simp
qed

text \<open>
  C7, amended. A message whose length after trimming is over 1000 (1001, say) is
  answered 400 with \<open>Message too long (maximum 1000 characters)\<close> and \<open>length\<close> equal to
  the trimmed length.
\<close>

theorem too_long_message_rejected:
  assumes "length (trim s) > 1000"
  shows "response (post_message e db \<lparr>message = Some (JString s), conversationId = c\<rparr>) =
     res_json 400 (JObject
       [(''error'', JString (js ''Message too long (maximum 1000 characters)'')),
        (''length'', JNumber (int (length (trim s))))])"
proof -
  from assms have "trim s \<noteq> []" by auto
  moreover from this have "s \<noteq> []" by (auto simp: trim_Nil)
  ultimately show ?thesis
    using assms by (simp add: post_message_def post_message_try_def)
qed

theorem too_long_message_rejected_witness:
  "length (trim (replicate 1001 (0x61 :: 16 word))) > 1000 \<and>
   response (post_message env_example db_example
     \<lparr>message = Some (JString (replicate 1001 0x61)), conversationId = None\<rparr>) =
     res_json 400 (JObject
       [(''error'', JString (js ''Message too long (maximum 1000 characters)'')),
        (''length'', JNumber 1001)])"
proof -
  have t: "trim (replicate 1001 (0x61 :: 16 word)) = replicate 1001 0x61"
    by (rule trim_id) (simp_all add: is_js_whitespace_def)
  have h: "length (trim (replicate 1001 (0x61 :: 16 word))) > 1000"
    by (simp add: t)
  from too_long_message_rejected [OF h, of env_example db_example None] h
  show ?thesis by (simp add: t)
qed

subsection \<open>The history after N messages\<close>

lemma post_message_first_example:
  "post_message env_example db_empty
     \<lparr>message = Some (JString (js ''shipping?'')), conversationId = None\<rparr> =
   \<lparr>response = res_json 200 (JObject
      [(''success'', JBool True),
       (''reply'', JString (js ''Free over $50.'')),
       (''conversationId'', JString (js ''c3'')),
       (''modelUsed'', JString (js ''llama-3.2-3b-preview'')),
       (''isNewConversation'', JBool True),
       (''timestamp'', JString (js ''2025-12-01T10:00:20.000Z''))]),
    db_after =
      \<lparr>conversations = [\<lparr>conv_id = js ''c3'', conv_created_at = 20\<rparr>],
       messages =
         [\<lparr>msg_id = js ''m4'', conversation_id = js ''c3'', sender = User,
           msg_text = js ''shipping?'', created_at = 20\<rparr>,
          \<lparr>msg_id = js ''m5'', conversation_id = js ''c3'', sender = Ai,
           msg_text = js ''Free over $50.'', created_at = 20\<rparr>]\<rparr>,
    provider_calls =
      [(''llama-3.1-8b-instant'',
        [\<lparr>role = RoleSystem, content = STORE_INFO\<rparr>,
         \<lparr>role = RoleUser, content = js ''shipping?''\<rparr>,
         \<lparr>role = RoleUser, content = js ''shipping?''\<rparr>]),
       (''llama-3.2-3b-preview'',
        [\<lparr>role = RoleSystem, content = STORE_INFO\<rparr>,
         \<lparr>role = RoleUser, content = js ''shipping?''\<rparr>,
         \<lparr>role = RoleUser, content = js ''shipping?''\<rparr>])]\<rparr>"
proof -
  let ?req = "\<lparr>message = Some (JString (js ''shipping?'')), conversationId = None\<rparr>"
  have t: "trim (js ''shipping?'') = js ''shipping?''"
    by (simp add: trim_def js_def is_js_whitespace_def)
  have um: "user_message ?req = js ''shipping?''"
    by (simp add: user_message_def t)
  have v: "valid_message (message ?req)"
    by (simp add: valid_message_example)
  have res: "resolve_conversation env_example db_empty (conversationId ?req) =
     Inr (js ''c3'', True,
          \<lparr>conversations = [\<lparr>conv_id = js ''c3'', conv_created_at = 20\<rparr>], messages = []\<rparr>)"
    by (simp add: resolve_conversation_def insert_conversation_def db_empty_def env_example_def)
  have u: "uuid_userMsg env_example \<notin> set (map msg_id (messages db_empty))"
    and a: "uuid_aiMsg env_example \<notin> set (map msg_id (messages db_empty))"
    and ua: "uuid_aiMsg env_example \<noteq> uuid_userMsg env_example"
    by (simp_all add: env_example_def db_empty_def)
  show ?thesis
    unfolding post_message_outcome [OF v res u a ua refl refl] um
    by (simp add: build_messages_def history_def select_messages_desc_limit6_def
        select_messages_asc_def db_empty_def env_example_def history_turn_def
        modelsToTry_def loop_start_def completion_example_def)
qed

text \<open>
  C8, as the claim states it, fails: \<open>created_at\<close> is \<open>CURRENT_TIMESTAMP\<close>, whole
  seconds. A reply stored within the second of its user message has the same
  \<open>created_at\<close>, so the order of the two rows is not strictly increasing.
\<close>

theorem same_second_not_strictly_increasing:
  "status (response (post_message env_example db_empty
     \<lparr>message = Some (JString (js ''shipping?'')), conversationId = None\<rparr>)) = 200 \<and>
   field (body (get_conversation
     (db_after (post_message env_example db_empty
        \<lparr>message = Some (JString (js ''shipping?'')), conversationId = None\<rparr>))
     (js ''c3''))) ''messages'' =
     Some (JArray
       [JObject [(''id'', JString (js ''m4'')), (''sender'', JString (js ''user'')),
                 (''text'', JString (js ''shipping?'')), (''created_at'', JTimestamp 20)],
        JObject [(''id'', JString (js ''m5'')), (''sender'', JString (js ''ai'')),
                 (''text'', JString (js ''Free over $50.'')), (''created_at'', JTimestamp 20)]]) \<and>
   \<not> sorted_wrt (<) (map created_at (select_messages_asc
     (db_after (post_message env_example db_empty
        \<lparr>message = Some (JString (js ''shipping?'')), conversationId = None\<rparr>))
     (js ''c3'')))"
  unfolding post_message_first_example
  by (simp add: get_conversation_def select_conversation_def select_messages_asc_def
      res_json_def row_json_def Let_def)

lemma post_message_second_example:
  "post_message env_later
     \<lparr>conversations = [\<lparr>conv_id = js ''c3'', conv_created_at = 20\<rparr>],
       messages =
         [\<lparr>msg_id = js ''m4'', conversation_id = js ''c3'', sender = User,
           msg_text = js ''shipping?'', created_at = 20\<rparr>,
          \<lparr>msg_id = js ''m5'', conversation_id = js ''c3'', sender = Ai,
           msg_text = js ''Free over $50.'', created_at = 20\<rparr>]\<rparr>
     \<lparr>message = Some (JString (js ''returns?'')), conversationId = Some (js ''c3'')\<rparr> =
   \<lparr>response = res_json 200 (JObject
      [(''success'', JBool True),
       (''reply'', JString (js ''Free over $50.'')),
       (''conversationId'', JString (js ''c3'')),
       (''modelUsed'', JString (js ''llama-3.2-3b-preview'')),
       (''isNewConversation'', JBool False),
       (''timestamp'', JString (js ''2025-12-01T10:00:20.000Z''))]),
    db_after =
      \<lparr>conversations = [\<lparr>conv_id = js ''c3'', conv_created_at = 20\<rparr>],
       messages =
         [\<lparr>msg_id = js ''m4'', conversation_id = js ''c3'', sender = User,
           msg_text = js ''shipping?'', created_at = 20\<rparr>,
          \<lparr>msg_id = js ''m5'', conversation_id = js ''c3'', sender = Ai,
           msg_text = js ''Free over $50.'', created_at = 20\<rparr>,
          \<lparr>msg_id = js ''m6'', conversation_id = js ''c3'', sender = User,
           msg_text = js ''returns?'', created_at = 22\<rparr>,
          \<lparr>msg_id = js ''m7'', conversation_id = js ''c3'', sender = Ai,
           msg_text = js ''Free over $50.'', created_at = 23\<rparr>]\<rparr>,
    provider_calls =
      [(''llama-3.1-8b-instant'',
        [\<lparr>role = RoleSystem, content = STORE_INFO\<rparr>,
         \<lparr>role = RoleUser, content = js ''shipping?''\<rparr>,
         \<lparr>role = RoleAssistant, content = js ''Free over $50.''\<rparr>,
         \<lparr>role = RoleUser, content = js ''returns?''\<rparr>,
         \<lparr>role = RoleUser, content = js ''returns?''\<rparr>]),
       (''llama-3.2-3b-preview'',
        [\<lparr>role = RoleSystem, content = STORE_INFO\<rparr>,
         \<lparr>role = RoleUser, content = js ''shipping?''\<rparr>,
         \<lparr>role = RoleAssistant, content = js ''Free over $50.''\<rparr>,
         \<lparr>role = RoleUser, content = js ''returns?''\<rparr>,
         \<lparr>role = RoleUser, content = js ''returns?''\<rparr>])]\<rparr>"
proof -
  let ?req = "\<lparr>message = Some (JString (js ''returns?'')), conversationId = Some (js ''c3'')\<rparr>"
  let ?db = "\<lparr>conversations = [\<lparr>conv_id = js ''c3'', conv_created_at = 20\<rparr>],
       messages =
         [\<lparr>msg_id = js ''m4'', conversation_id = js ''c3'', sender = User,
           msg_text = js ''shipping?'', created_at = 20\<rparr>,
          \<lparr>msg_id = js ''m5'', conversation_id = js ''c3'', sender = Ai,
           msg_text = js ''Free over $50.'', created_at = 20\<rparr>]\<rparr>"
  have t: "trim (js ''returns?'') = js ''returns?''"
    by (simp add: trim_def js_def is_js_whitespace_def)
  have um: "user_message ?req = js ''returns?''"
    by (simp add: user_message_def t)
  have v: "valid_message (message ?req)"
    by (simp add: valid_message_def t) (simp add: js_def)
  have res: "resolve_conversation env_later ?db (conversationId ?req) =
     Inr (js ''c3'', False, ?db)"
    by (simp add: resolve_conversation_def select_conversation_def)
  have u: "uuid_userMsg env_later \<notin> set (map msg_id (messages ?db))"
    and a: "uuid_aiMsg env_later \<notin> set (map msg_id (messages ?db))"
    and ua: "uuid_aiMsg env_later \<noteq> uuid_userMsg env_later"
    by (simp_all add: env_later_def env_example_def)
  show ?thesis
    unfolding post_message_outcome [OF v res u a ua refl refl] um
    by (simp add: build_messages_def history_def select_messages_desc_limit6_def
        select_messages_asc_def env_later_def env_example_def history_turn_def
        modelsToTry_def loop_start_def completion_example_def)
qed

text \<open>
  C8, amended. After N successive \<open>POST /api/message\<close> calls (N at least 1) that are
  all answered 200 for the conversation \<open>cid\<close>, which held no message before, served by
  a clock that does not run backwards, \<open>GET /api/conversation/:id\<close> answers 200 with
  exactly 2N messages, senders \<open>user\<close>, \<open>ai\<close>, \<open>user\<close>, \<open>ai\<close>, and so on, in non-decreasing
  \<open>created_at\<close> order: the \<open>created_at\<close> values are the times of the inserts, which are
  equal for rows stored within one second.
\<close>

theorem successive_messages_alternate:
  assumes "reqs \<noteq> []"
    and "\<forall>r\<in>set (fst (post_messages db reqs)).
           status r = 200 \<and> field (body r) ''conversationId'' = Some (JString cid)"
    and "filter (\<lambda>m. conversation_id m = cid) (messages db) = []"
    and "sorted (insert_times reqs)"
  shows "status (get_conversation (snd (post_messages db reqs)) cid) = 200 \<and>
         field (body (get_conversation (snd (post_messages db reqs)) cid)) ''messages'' =
           Some (JArray (map row_json (select_messages_asc (snd (post_messages db reqs)) cid))) \<and>
         field (body (get_conversation (snd (post_messages db reqs)) cid)) ''messageCount'' =
           Some (JNumber (int (2 * length reqs))) \<and>
         length (select_messages_asc (snd (post_messages db reqs)) cid) = 2 * length reqs \<and>
         map sender (select_messages_asc (snd (post_messages db reqs)) cid) =
           concat (replicate (length reqs) [User, Ai]) \<and>
         map created_at (select_messages_asc (snd (post_messages db reqs)) cid) =
           insert_times reqs \<and>
         sorted (map created_at (select_messages_asc (snd (post_messages db reqs)) cid))"
proof -
  let ?db = "snd (post_messages db reqs)"
  from post_messages_rows [OF assms(2)] assms(1,3) obtain rows where
    f: "filter (\<lambda>m. conversation_id m = cid) (messages ?db) = rows" and
    s: "map sender rows = concat (replicate (length reqs) [User, Ai])" and
    t: "map created_at rows = insert_times reqs" and
    c: "cid \<in> set (map conv_id (conversations ?db))"
    by auto
  have "sorted (map created_at rows)"
    using assms(4) by (simp add: t)
  then have sel: "select_messages_asc ?db cid = rows"
    by (simp add: select_messages_asc_def f sort_key_id_if_sorted)
  have "length (map sender rows) = 2 * length reqs"
    unfolding s by (induction reqs) simp_all
  then have len: "length rows = 2 * length reqs"
    by simp
  from c obtain r where r: "select_conversation ?db cid = Some r"
    using select_conversation_None [of ?db cid] by (cases "select_conversation ?db cid") auto
  show ?thesis
    using assms(4)
    by (simp add: get_conversation_def r res_json_def Let_def sel s t len)
qed

theorem successive_messages_alternate_witness:
  "requests_example \<noteq> [] \<and>
   list_all (\<lambda>r. status r = 200 \<and> field (body r) ''conversationId'' = Some (JString (js ''c3'')))
     (fst (post_messages db_empty requests_example)) \<and>
   filter (\<lambda>m. conversation_id m = js ''c3'') (messages db_empty) = [] \<and>
   sorted (insert_times requests_example) \<and>
   insert_times requests_example = [20, 20, 22, 23] \<and>
   status (get_conversation (snd (post_messages db_empty requests_example)) (js ''c3'')) = 200 \<and>
   length (select_messages_asc (snd (post_messages db_empty requests_example)) (js ''c3'')) = 4 \<and>
   map sender (select_messages_asc (snd (post_messages db_empty requests_example)) (js ''c3'')) =
     [User, Ai, User, Ai] \<and>
   map created_at
     (select_messages_asc (snd (post_messages db_empty requests_example)) (js ''c3'')) =
     [20, 20, 22, 23]"
proof -
  have pm: "post_messages db_empty requests_example =
    ([response (post_message env_example db_empty
        \<lparr>message = Some (JString (js ''shipping?'')), conversationId = None\<rparr>),
      response (post_message env_later
        (db_after (post_message env_example db_empty
           \<lparr>message = Some (JString (js ''shipping?'')), conversationId = None\<rparr>))
        \<lparr>message = Some (JString (js ''returns?'')), conversationId = Some (js ''c3'')\<rparr>)],
     db_after (post_message env_later
        (db_after (post_message env_example db_empty
           \<lparr>message = Some (JString (js ''shipping?'')), conversationId = None\<rparr>))
        \<lparr>message = Some (JString (js ''returns?'')), conversationId = Some (js ''c3'')\<rparr>))"
    by (simp add: requests_example_def Let_def)
  have h1: "requests_example \<noteq> []"
    by (simp add: requests_example_def)
  have h2: "\<forall>r\<in>set (fst (post_messages db_empty requests_example)).
     status r = 200 \<and> field (body r) ''conversationId'' = Some (JString (js ''c3''))"
    unfolding pm post_message_first_example
    by (simp add: post_message_second_example res_json_def)
  have h3: "filter (\<lambda>m. conversation_id m = js ''c3'') (messages db_empty) = []"
    by (simp add: db_empty_def)
  have i: "insert_times requests_example = [20, 20, 22, 23]"
    by (simp add: insert_times_def requests_example_def env_example_def env_later_def)
  have h4: "sorted (insert_times requests_example)"
    by (simp add: i)
  have n: "replicate (length requests_example) [User, Ai] = [[User, Ai], [User, Ai]]"
    by (simp add: requests_example_def numeral_2_eq_2)
  have l: "2 * length requests_example = 4"
    by (simp add: requests_example_def)
  from successive_messages_alternate [OF h1 h2 h3 h4] h1 h2 h3 h4 i
  show ?thesis unfolding n l by (simp add: list_all_iff)
qed

subsection \<open>The export\<close>

text \<open>
  C9, as the claim states it, fails: the history endpoint sends \<open>success: true\<close> before
  the four fields, the export sends the four fields only, so the bodies differ.
\<close>

theorem export_body_differs:
  "body (export_conversation db_example (js ''c2'')) \<noteq>
     body (get_conversation db_example (js ''c2'')) \<and>
   field (body (get_conversation db_example (js ''c2''))) ''success'' = Some (JBool True) \<and>
   field (body (export_conversation db_example (js ''c2''))) ''success'' = None"
  by (simp add: export_conversation_def get_conversation_def select_conversation_def
      db_example_def res_json_def Let_def)

text \<open>
  C9, amended. For a stored conversation id both endpoints answer 200; the body of the
  export is the object of \<open>conversationId\<close>, \<open>createdAt\<close>, \<open>messageCount\<close> and
  \<open>messages\<close> (the rows in ascending \<open>created_at\<close>), the body of the history endpoint is
  that object with \<open>success: true\<close> in front, and the export carries a
  \<open>Content-Disposition\<close> attachment header.
\<close>

theorem export_is_history_without_success:
  assumes "cid \<in> set (map conv_id (conversations db))"
  shows "\<exists>conversation.
     select_conversation db cid = Some conversation \<and>
     status (get_conversation db cid) = 200 \<and>
     status (export_conversation db cid) = 200 \<and>
     body (export_conversation db cid) = JObject
       [(''conversationId'', JString cid),
        (''createdAt'', JTimestamp (conv_created_at conversation)),
        (''messageCount'', JNumber (int (length (select_messages_asc db cid)))),
        (''messages'', JArray (map row_json (select_messages_asc db cid)))] \<and>
     body (get_conversation db cid) = JObject
       [(''success'', JBool True),
        (''conversationId'', JString cid),
        (''createdAt'', JTimestamp (conv_created_at conversation)),
        (''messageCount'', JNumber (int (length (select_messages_asc db cid)))),
        (''messages'', JArray (map row_json (select_messages_asc db cid)))] \<and>
     map_of (headers (export_conversation db cid)) ''Content-Disposition'' =
       Some (js ''attachment; filename=\"conversation-'' @ cid @ js ''.json\"'')"
proof -
  from assms obtain r where r: "select_conversation db cid = Some r"
    using select_conversation_None [of db cid] by (cases "select_conversation db cid") auto
  show ?thesis
    by (simp add: r export_conversation_def get_conversation_def res_json_def Let_def)
qed

theorem export_is_history_without_success_witness:
  "js ''c2'' \<in> set (map conv_id (conversations db_example)) \<and>
   (\<exists>conversation.
     select_conversation db_example (js ''c2'') = Some conversation \<and>
     status (get_conversation db_example (js ''c2'')) = 200 \<and>
     status (export_conversation db_example (js ''c2'')) = 200 \<and>
     body (export_conversation db_example (js ''c2'')) = JObject
       [(''conversationId'', JString (js ''c2'')),
        (''createdAt'', JTimestamp (conv_created_at conversation)),
        (''messageCount'', JNumber (int (length (select_messages_asc db_example (js ''c2''))))),
        (''messages'', JArray (map row_json (select_messages_asc db_example (js ''c2''))))] \<and>
     body (get_conversation db_example (js ''c2'')) = JObject
       [(''success'', JBool True),
        (''conversationId'', JString (js ''c2'')),
        (''createdAt'', JTimestamp (conv_created_at conversation)),
        (''messageCount'', JNumber (int (length (select_messages_asc db_example (js ''c2''))))),
        (''messages'', JArray (map row_json (select_messages_asc db_example (js ''c2''))))] \<and>
     map_of (headers (export_conversation db_example (js ''c2''))) ''Content-Disposition'' =
       Some (js ''attachment; filename=\"conversation-'' @ js ''c2'' @ js ''.json\"'')) \<and>
   select_messages_asc db_example (js ''c2'') =
     [\<lparr>msg_id = js ''m3'', conversation_id = js ''c2'', sender = User,
       msg_text = js ''returns?'', created_at = 12\<rparr>]"
proof -
  have h: "js ''c2'' \<in> set (map conv_id (conversations db_example))"
    by (simp add: db_example_def)
  have m: "select_messages_asc db_example (js ''c2'') =
     [\<lparr>msg_id = js ''m3'', conversation_id = js ''c2'', sender = User,
       msg_text = js ''returns?'', created_at = 12\<rparr>]"
    by (simp add: select_messages_asc_def db_example_def)
  from export_is_history_without_success [OF h] h m
  show ?thesis by blast
qed

subsection \<open>A completion without content\<close>

text \<open>
  C10. When the calls for the candidates before \<open>m\<close> are rejected and the call for \<open>m\<close>
  resolves with a completion whose \<open>choices[0]?.message?.content\<close> is missing or empty
  (valid message, new ids): the provider is called for no candidate after \<open>m\<close>, the
  reply of the 200 response is the fixed apology and its \<open>modelUsed\<close> is \<open>m\<close>, and the
  \<open>ai\<close> row added to the conversation holds the apology.
\<close>

theorem missing_content_replaced_by_apology:
  assumes "valid_message (message req)"
    and "fresh_ids e db"
    and "modelsToTry = pre @ m # post"
    and "\<forall>x\<in>set pre. \<forall>msgs. \<exists>err. create e x msgs = Rejected err"
    and "\<forall>msgs. \<exists>c. create e m msgs = Resolved c \<and>
           (first_content c = None \<or> first_content c = Some [])"
  shows "map fst (provider_calls (post_message e db req)) = pre @ [m] \<and>
         status (response (post_message e db req)) = 200 \<and>
         field (body (response (post_message e db req))) ''reply'' = Some (JString apology) \<and>
         field (body (response (post_message e db req))) ''modelUsed'' = Some (JString (js m)) \<and>
         (\<exists>u a. messages (db_after (post_message e db req)) = messages db @ [u, a] \<and>
                sender a = Ai \<and> msg_text a = apology \<and>
                field (body (response (post_message e db req))) ''conversationId'' =
                  Some (JString (conversation_id a))) \<and>
         apology = js ''I apologize, but I couldn't generate a response.''"
proof -
  from post_message_first_success
    [of req e db pre m post "\<lambda>c. first_content c = None \<or> first_content c = Some []",
     OF assms]
  obtain convId isNew db1 msgs c where
    c: "first_content c = None \<or> first_content c = Some []" and
    r: "post_message e db req =
     \<lparr>response = res_json 200 (JObject
         [(''success'', JBool True),
          (''reply'', JString (or_default (first_content c) apology)),
          (''conversationId'', JString convId),
          (''modelUsed'', JString (js m)),
          (''isNewConversation'', JBool isNew),
          (''timestamp'', JString (toISOString e))]),
      db_after = db1\<lparr>messages := messages db @
         [\<lparr>msg_id = uuid_userMsg e, conversation_id = convId, sender = User,
           msg_text = utf8_round_trip (user_message req), created_at = now_userMsg e\<rparr>,
          \<lparr>msg_id = uuid_aiMsg e, conversation_id = convId, sender = Ai,
           msg_text = utf8_round_trip (or_default (first_content c) apology), created_at = now_aiMsg e\<rparr>]\<rparr>,
      provider_calls = map (\<lambda>x. (x, msgs)) (pre @ [m])\<rparr>"
    by blast
  from c have d: "or_default (first_content c) apology = apology"
    by auto
  show ?thesis
    unfolding r d by (simp add: res_json_def comp_def apology_def)
qed

theorem missing_content_replaced_by_apology_witness:
  "valid_message (message
     \<lparr>message = Some (JString (js ''shipping?'')), conversationId = None\<rparr>) \<and>
   fresh_ids env_no_content db_example \<and>
   modelsToTry = [''llama-3.1-8b-instant''] @ ''llama-3.2-3b-preview'' #
                 [''gemma2-9b-it'', ''llama-3.2-1b-preview''] \<and>
   (\<forall>msgs. \<exists>err. create env_no_content ''llama-3.1-8b-instant'' msgs = Rejected err) \<and>
   (\<forall>msgs. \<exists>c. create env_no_content ''llama-3.2-3b-preview'' msgs = Resolved c \<and>
           (first_content c = None \<or> first_content c = Some [])) \<and>
   map fst (provider_calls (post_message env_no_content db_example
     \<lparr>message = Some (JString (js ''shipping?'')), conversationId = None\<rparr>)) =
     [''llama-3.1-8b-instant'', ''llama-3.2-3b-preview''] \<and>
   field (body (response (post_message env_no_content db_example
     \<lparr>message = Some (JString (js ''shipping?'')), conversationId = None\<rparr>))) ''reply'' =
     Some (JString (js ''I apologize, but I couldn't generate a response.''))"
proof -
  let ?req = "\<lparr>message = Some (JString (js ''shipping?'')), conversationId = None\<rparr>"
  have v: "valid_message (message ?req)"
    by (simp add: valid_message_example)
  have f: "fresh_ids env_no_content db_example"
    by (simp add: fresh_ids_def env_no_content_def env_example_def db_example_def)
  have s: "modelsToTry = [''llama-3.1-8b-instant''] @ ''llama-3.2-3b-preview'' #
                 [''gemma2-9b-it'', ''llama-3.2-1b-preview'']"
    by (simp add: modelsToTry_def)
  have p: "\<forall>x\<in>set [''llama-3.1-8b-instant'']. \<forall>msgs. \<exists>err.
      create env_no_content x msgs = Rejected err"
    by (simp add: env_no_content_def)
  have m: "\<forall>msgs. \<exists>c. create env_no_content ''llama-3.2-3b-preview'' msgs = Resolved c \<and>
           (first_content c = None \<or> first_content c = Some [])"
    by (simp add: env_no_content_def)
  have p': "\<forall>msgs. \<exists>err. create env_no_content ''llama-3.1-8b-instant'' msgs = Rejected err"
    using p by simp
  from missing_content_replaced_by_apology [OF v f s p m] v f s p' m
  show ?thesis by (simp add: apology_def)
qed

end
